theory Spec2Isabelle
  imports Complex_Main "HOL-Library.Sublist" "HOL-Library.AList"
begin

section \<open>The block controller of the explorer API (lib/blocks.js)\<close>

text \<open>
  A shallow embedding of \<^verbatim>\<open>src/lib/blocks.js\<close>. JavaScript numbers that hold block
  heights, amounts in base units and timestamps are integers far below \<open>2^53\<close>, where
  double arithmetic is exact; they are modelled as \<open>int\<close>. A number that may be
  \<^verbatim>\<open>NaN\<close> is an \<open>int option\<close> with \<open>None\<close> for \<^verbatim>\<open>NaN\<close>. A value that may be
  \<^verbatim>\<open>undefined\<close> or \<^verbatim>\<open>null\<close> is an \<open>option\<close>.
\<close>

subsection \<open>Block reward (getBlockReward)\<close>

text \<open>
  \<^verbatim>\<open>new BN(20 * 1e8)\<close>: the arbitrary-precision integer 2000000000. In the two
  slow-start branches \<^verbatim>\<open>subsidy /= 4000\<close> converts the big number to the number
  2000000000 and divides; 4000 divides 2000000000, so the quotient is the integer
  500000 and \<open>div\<close> is the exact value. \<^verbatim>\<open>shrn\<close> is the right shift of a
  non-negative big number, \<open>drop_bit\<close>. \<^verbatim>\<open>parseInt(subsidy.toString(10))\<close> reads
  the decimal digits back and is the identity on these values.
\<close>

definition BN_shrn :: "int \<Rightarrow> nat \<Rightarrow> int" where
  "BN_shrn x bits = drop_bit bits x"

definition getBlockReward :: "int \<Rightarrow> int" where
  "getBlockReward height =
     (let subsidy = 20 * 100000000 in
      if height < 4000 div 2 then
        (let subsidy1 = subsidy div 4000;
             subsidy2 = subsidy1 * height
         in subsidy2)
      else if height < 4000 then
        (let subsidy1 = subsidy div 4000;
             subsidy2 = subsidy1 * (height + 1)
         in subsidy2)
      else
        (let halvings = (height - 4000 div 2) div 2102400 in
         if halvings \<ge> 64 then 0
         else BN_shrn subsidy (nat halvings)))"

text \<open>The schedule in the words of the specification (section 4.1).\<close>

definition reward_schedule :: "int \<Rightarrow> int" where
  "reward_schedule h =
     (let base = 20 * 10 ^ 8 in
      if h < 2000 then base div 4000 * h
      else if h < 4000 then base div 4000 * (h + 1)
      else (let halvings = (h - 2000) div 2102400 in
            if halvings \<ge> 64 then 0 else base div 2 ^ nat halvings))"

subsection \<open>Request hash validation (isHexadecimal, checkBlockHash)\<close>

datatype js_err = Err (err_code: "int option") (err_message: string)

datatype js_exception = TypeError | SyntaxError

text \<open>
  How a handler ends: it calls \<^verbatim>\<open>common.handleErrors(err, res)\<close> (with \<^verbatim>\<open>null\<close>
  for not found), it hands over its result (\<^verbatim>\<open>next()\<close> with the request field set, or
  \<^verbatim>\<open>res.jsonp\<close>), or an exception escapes it.
\<close>

datatype 'a outcome = HandleErrors "js_err option" | Done 'a | Thrown js_exception

definition hex_char :: "char \<Rightarrow> bool" where
  "hex_char c =
     (let n = (of_char c :: nat) in
      (48 \<le> n \<and> n \<le> 57) \<or> (97 \<le> n \<and> n \<le> 102) \<or> (65 \<le> n \<and> n \<le> 70))"

text \<open>\<^verbatim>\<open>/^[0-9a-fA-F]+$/.test(hash)\<close>: one or more characters, all of the class.\<close>

definition isHexadecimal :: "string \<Rightarrow> bool" where
  "isHexadecimal hash = (hash \<noteq> [] \<and> list_all hex_char hash)"

definition checkBlockHash :: "string \<Rightarrow> unit outcome" where
  "checkBlockHash hash =
     (if length hash < 64 \<or> \<not> isHexadecimal hash then HandleErrors None
      else Done ())"

subsection \<open>Miner address guess (the output loop of transformBlock and _getBlockSummary)\<close>

record tx_output =
  satoshis :: int
  address :: "string option"

text \<open>
  The body of the \<^verbatim>\<open>forEach\<close> callback, on the pair of the two captured variables
  \<^verbatim>\<open>(lastBiggestNumber, poolAddress)\<close>. The test
  \<^verbatim>\<open>output.satoshis !== reward * 0.5\<close> compares an integer with half of an integer:
  it is \<open>2 * satoshis \<noteq> reward\<close>.
\<close>

definition guess_step :: "int \<Rightarrow> int \<times> string option \<Rightarrow> tx_output \<Rightarrow> int \<times> string option" where
  "guess_step reward acc output =
     (if 2 * satoshis output \<noteq> reward then
        (if satoshis output > fst acc then (satoshis output, address output) else acc)
      else acc)"

definition guess_loop :: "int \<Rightarrow> tx_output list \<Rightarrow> int \<times> string option" where
  "guess_loop reward outputs = foldl (guess_step reward) (0, None) outputs"

definition minerAddress :: "int \<Rightarrow> tx_output list \<Rightarrow> string option" where
  "minerAddress reward outputs = snd (guess_loop reward outputs)"

text \<open>The outputs the guess considers, and the first of the largest among them.\<close>

definition eligible :: "int \<Rightarrow> tx_output list \<Rightarrow> tx_output list" where
  "eligible reward outputs =
     filter (\<lambda>output. 2 * satoshis output \<noteq> reward \<and> satoshis output > 0) outputs"

definition largest :: "tx_output list \<Rightarrow> int" where
  "largest os = Max (set (map satoshis os))"

definition first_largest :: "tx_output list \<Rightarrow> tx_output option" where
  "first_largest os =
     (if os = [] then None else find (\<lambda>output. satoshis output = largest os) os)"

text \<open>
  The guess in the words of the specification (section 4.2): the first of the largest
  among the outputs whose amount is not exactly half the reward.
\<close>

definition spec_minerAddress :: "int \<Rightarrow> tx_output list \<Rightarrow> string option" where
  "spec_minerAddress reward outputs =
     (case first_largest (filter (\<lambda>output. 2 * satoshis output \<noteq> reward) outputs) of
        None \<Rightarrow> None
      | Some output \<Rightarrow> address output)"

subsection \<open>Pool signatures (the constructor's poolStrings, getPoolInfo)\<close>

record pool_info =
  poolName :: string
  url :: string

text \<open>An entry of \<^verbatim>\<open>pools.json\<close>, which the controller only reads.\<close>

record pool = pool_info +
  searchStrings :: "string list"

text \<open>
  The object \<^verbatim>\<open>this.poolStrings\<close>, created as \<^verbatim>\<open>{}\<close> and used as a dictionary: its
  own properties in creation order, and its prototype. Every value the constructor
  assigns is an object \<^verbatim>\<open>{poolName, url}\<close>. Assigning to the key \<^verbatim>\<open>__proto__\<close> runs
  the setter of \<^verbatim>\<open>Object.prototype\<close>: it creates no own property and makes the
  assigned object the prototype (\<open>None\<close> stands for \<^verbatim>\<open>Object.prototype\<close>, which has
  no enumerable property). Assigning to any other key creates an own property, or, when
  the key is already an own property, keeps its place and replaces the value
  (\<open>AList.update\<close>).
\<close>

record pool_object =
  own_props :: "(string \<times> pool_info) list"
  prototype :: "pool_info option"

definition empty_object :: pool_object where
  "empty_object = \<lparr>own_props = [], prototype = None\<rparr>"

definition obj_assign :: "pool_object \<Rightarrow> string \<Rightarrow> pool_info \<Rightarrow> pool_object" where
  "obj_assign obj k v =
     (if k = ''__proto__'' then obj\<lparr>prototype := Some v\<rparr>
      else obj\<lparr>own_props := AList.update k v (own_props obj)\<rparr>)"

text \<open>
  What \<^verbatim>\<open>obj[k]\<close> reads for a key that \<^verbatim>\<open>for ... in\<close> visits: the own property, a
  pool object, or else the property \<^verbatim>\<open>poolName\<close> or \<^verbatim>\<open>url\<close> of the prototype, a
  string.
\<close>

datatype pool_value = Pool pool_info | Str string

definition obj_get :: "pool_object \<Rightarrow> string \<Rightarrow> pool_value option" where
  "obj_get obj k =
     (case map_of (own_props obj) k of
        Some v \<Rightarrow> Some (Pool v)
      | None \<Rightarrow>
          (case prototype obj of
             None \<Rightarrow> None
           | Some p \<Rightarrow>
               if k = ''poolName'' then Some (Str (poolName p))
               else if k = ''url'' then Some (Str (url p))
               else None))"

text \<open>
  \<^verbatim>\<open>for (var k in obj)\<close> visits the own keys that are canonical array indices first, in
  ascending numeric order, then the other own keys in creation order, and then the keys
  of the prototype that no own key shadows.
\<close>

definition digit_char :: "char \<Rightarrow> bool" where
  "digit_char c = (48 \<le> (of_char c :: nat) \<and> (of_char c :: nat) \<le> 57)"

definition dec_value :: "string \<Rightarrow> nat" where
  "dec_value s = foldl (\<lambda>n c. 10 * n + ((of_char c :: nat) - 48)) 0 s"

definition is_array_index :: "string \<Rightarrow> bool" where
  "is_array_index s =
     (s \<noteq> [] \<and> list_all digit_char s \<and> (s = ''0'' \<or> hd s \<noteq> CHR ''0'') \<and>
      dec_value s < 4294967295)"

definition own_keys :: "(string \<times> 'v) list \<Rightarrow> string list" where
  "own_keys props =
     sort_key dec_value (filter is_array_index (map fst props)) @
     filter (\<lambda>k. \<not> is_array_index k) (map fst props)"

definition for_in_keys :: "pool_object \<Rightarrow> string list" where
  "for_in_keys obj =
     own_keys (own_props obj) @
     (case prototype obj of
        None \<Rightarrow> []
      | Some p \<Rightarrow> filter (\<lambda>k. k \<notin> set (map fst (own_props obj))) [''poolName'', ''url''])"

definition poolStrings_of :: "pool list \<Rightarrow> pool_object" where
  "poolStrings_of pools =
     foldl (\<lambda>obj pool.
        foldl (\<lambda>obj' s. obj_assign obj' s \<lparr>poolName = poolName pool, url = url pool\<rparr>)
          obj (searchStrings pool))
       empty_object pools"

text \<open>
  \<^verbatim>\<open>text.match(k)\<close> with a string \<^verbatim>\<open>k\<close> compiles \<^verbatim>\<open>k\<close> as a regular expression
  and searches the text for a match. A pattern made of ordinary characters and the
  wildcard \<^verbatim>\<open>.\<close> (any character but a line terminator) is matched here by
  \<open>match_anywhere\<close>; every other pattern is left to the regular-expression engine, a
  parameter, which answers \<open>None\<close> when the pattern does not compile (SyntaxError).
  The text is the coinbase script decoded by \<^verbatim>\<open>toString('utf-8')\<close>.
\<close>

definition regexp_syntax_char :: "char \<Rightarrow> bool" where
  "regexp_syntax_char c = (c = CHR 0x5C \<or> c \<in> set ''^$.*+?()[]{}|'')"

definition pattern_char_matches :: "char \<Rightarrow> char \<Rightarrow> bool" where
  "pattern_char_matches p c =
     (if p = CHR ''.'' then c \<noteq> CHR 0x0A \<and> c \<noteq> CHR 0x0D else p = c)"

fun match_here :: "string \<Rightarrow> string \<Rightarrow> bool" where
  "match_here [] text = True"
| "match_here (p # ps) [] = False"
| "match_here (p # ps) (c # cs) = (pattern_char_matches p c \<and> match_here ps cs)"

fun match_anywhere :: "string \<Rightarrow> string \<Rightarrow> bool" where
  "match_anywhere k [] = match_here k []"
| "match_anywhere k (c # cs) = (match_here k (c # cs) \<or> match_anywhere k cs)"

definition String_match :: "(string \<Rightarrow> string \<Rightarrow> bool option) \<Rightarrow> string \<Rightarrow> string \<Rightarrow> bool option" where
  "String_match engine text k =
     (if list_all (\<lambda>c. c = CHR ''.'' \<or> \<not> regexp_syntax_char c) k
      then Some (match_anywhere k text)
      else engine k text)"

text \<open>
  The loop of getPoolInfo. It returns \<^verbatim>\<open>this.poolStrings[k]\<close> for the first key that
  matches; \<open>None\<close> is the empty object \<^verbatim>\<open>{}\<close> returned after the loop.
\<close>

fun pool_scan ::
  "(string \<Rightarrow> string \<Rightarrow> bool option) \<Rightarrow> pool_object \<Rightarrow> string \<Rightarrow> string list \<Rightarrow>
   js_exception + pool_value option" where
  "pool_scan engine obj text [] = Inr None"
| "pool_scan engine obj text (k # ks) =
     (case String_match engine text k of
        None \<Rightarrow> Inl SyntaxError
      | Some matched \<Rightarrow>
          if matched then Inr (obj_get obj k) else pool_scan engine obj text ks)"

definition getPoolInfo ::
  "(string \<Rightarrow> string \<Rightarrow> bool option) \<Rightarrow> pool_object \<Rightarrow> string \<Rightarrow>
   js_exception + pool_value option" where
  "getPoolInfo engine obj coinbaseText = pool_scan engine obj coinbaseText (for_in_keys obj)"

text \<open>
  The lookup in the words of the specification: the configured (signature, pool) pairs
  in configuration order, the first signature that occurs as a substring.
\<close>

definition configured_signatures :: "pool list \<Rightarrow> (string \<times> pool_info) list" where
  "configured_signatures pools =
     concat (map (\<lambda>pool. map (\<lambda>s. (s, \<lparr>poolName = poolName pool, url = url pool\<rparr>))
                               (searchStrings pool)) pools)"

definition occurs_in :: "string \<Rightarrow> string \<Rightarrow> bool" where
  "occurs_in k text = sublist k text"

definition spec_getPoolInfo :: "pool list \<Rightarrow> string \<Rightarrow> pool_info option" where
  "spec_getPoolInfo pools text =
     (case find (\<lambda>entry. occurs_in (fst entry) text) (configured_signatures pools) of
        None \<Rightarrow> None
      | Some entry \<Rightarrow> Some (snd entry))"

subsection \<open>The bounded caches\<close>

text \<open>
  Modelled from the spec: the \<^verbatim>\<open>lru-cache\<close> package, which is not part of the
  sources. Section 4.3 describes "bounded least-recently-used maps"; the entries are kept
  most recently used first, \<open>get\<close> moves a hit to the front, \<open>set\<close> puts the entry
  at the front and drops the entries beyond the capacity from the back. A capacity that
  is not positive means no bound.
\<close>

record ('k, 'v) lru =
  lru_max :: "nat option"
  lru_entries :: "('k \<times> 'v) list"

definition LRU :: "int \<Rightarrow> ('k, 'v) lru" where
  "LRU n = \<lparr>lru_max = (if n \<le> 0 then None else Some (nat n)), lru_entries = []\<rparr>"

definition lru_peek :: "'k \<Rightarrow> ('k, 'v) lru \<Rightarrow> 'v option" where
  "lru_peek k c = map_of (lru_entries c) k"

definition lru_get :: "'k \<Rightarrow> ('k, 'v) lru \<Rightarrow> 'v option \<times> ('k, 'v) lru" where
  "lru_get k c =
     (case map_of (lru_entries c) k of
        None \<Rightarrow> (None, c)
      | Some v \<Rightarrow>
          (Some v, c\<lparr>lru_entries := (k, v) # filter (\<lambda>e. fst e \<noteq> k) (lru_entries c)\<rparr>))"

definition lru_trim :: "nat option \<Rightarrow> 'a list \<Rightarrow> 'a list" where
  "lru_trim m es = (case m of None \<Rightarrow> es | Some n \<Rightarrow> take n es)"

definition lru_set :: "'k \<Rightarrow> 'v \<Rightarrow> ('k, 'v) lru \<Rightarrow> ('k, 'v) lru" where
  "lru_set k v c =
     c\<lparr>lru_entries :=
         lru_trim (lru_max c) ((k, v) # filter (\<lambda>e. fst e \<noteq> k) (lru_entries c))\<rparr>"

subsection \<open>Numbers and strings of the runtime\<close>

definition digit_of :: "nat \<Rightarrow> char" where
  "digit_of d = (if d < 10 then char_of (48 + d) else char_of (87 + d))"

function nat_toString :: "nat \<Rightarrow> nat \<Rightarrow> string" where
  "nat_toString radix n =
     (if n < radix \<or> radix < 2 then [digit_of n]
      else nat_toString radix (n div radix) @ [digit_of (n mod radix)])"
  by pat_completeness auto
termination
  by (relation "measure snd") auto

declare nat_toString.simps [simp del]

text \<open>\<^verbatim>\<open>Number.prototype.toString()\<close> of an integer or \<^verbatim>\<open>NaN\<close>.\<close>

definition num_toString :: "int option \<Rightarrow> string" where
  "num_toString x =
     (case x of
        None \<Rightarrow> ''NaN''
      | Some i \<Rightarrow> (if i < 0 then ''-'' @ nat_toString 10 (nat (- i)) else nat_toString 10 (nat i)))"

text \<open>\<^verbatim>\<open>Buffer.prototype.toString('hex')\<close>; a buffer is a list of bytes.\<close>

definition buffer_toString_hex :: "string \<Rightarrow> string" where
  "buffer_toString_hex buf =
     concat (map (\<lambda>c. [digit_of ((of_char c :: nat) div 16), digit_of ((of_char c :: nat) mod 16)]) buf)"

text \<open>\<^verbatim>\<open>a > b\<close> on numbers: false when either is \<^verbatim>\<open>NaN\<close>.\<close>

definition num_gt :: "int option \<Rightarrow> int option \<Rightarrow> bool" where
  "num_gt a b = (case (a, b) of (Some x, Some y) \<Rightarrow> x > y | _ \<Rightarrow> False)"

text \<open>A number in a condition: \<^verbatim>\<open>0\<close> and \<^verbatim>\<open>NaN\<close> are falsy.\<close>

definition num_truthy :: "int option \<Rightarrow> bool" where
  "num_truthy a = (case a of None \<Rightarrow> False | Some x \<Rightarrow> x \<noteq> 0)"

text \<open>\<^verbatim>\<open>new Date(n)\<close>: the time value, invalid beyond 8.64e15 milliseconds.\<close>

definition new_Date :: "int option \<Rightarrow> int option" where
  "new_Date n =
     (case n of
        None \<Rightarrow> None
      | Some t \<Rightarrow> (if \<bar>t\<bar> > 8640000000000000 then None else Some t))"

text \<open>
  What the controller takes from the runtime and from bitcore without this file
  defining it: the regular-expression engine (for patterns \<open>String_match\<close> does not
  decide), the clock, the date parser and the calendar getters of \<^verbatim>\<open>Date\<close>,
  \<^verbatim>\<open>parseInt\<close>, and bitcore's reading of a raw block (header time, transaction
  count, decoded input script of the coinbase transaction).
\<close>

record parsed_block =
  pb_header_time :: int
  pb_txlength :: nat
  pb_coinbase_script :: string

record env =
  RegExp_engine :: "string \<Rightarrow> string \<Rightarrow> bool option"
  Date_now :: int
  Date_parse :: "string \<Rightarrow> int option"
  Date_getUTCFullYear :: "int \<Rightarrow> int"
  Date_getUTCMonth :: "int \<Rightarrow> int"
  Date_getUTCDate :: "int \<Rightarrow> int"
  parseInt :: "string \<Rightarrow> int option"
  bitcore_parse :: "string \<Rightarrow> parsed_block"

definition formatTimestamp :: "env \<Rightarrow> int option \<Rightarrow> string" where
  "formatTimestamp e date =
     (let yyyy = num_toString (map_option (Date_getUTCFullYear e) date);
          mm = num_toString (map_option (\<lambda>t. Date_getUTCMonth e t + 1) date);
          dd = num_toString (map_option (Date_getUTCDate e) date)
      in yyyy @ ''-'' @ (if length mm \<ge> 2 then mm else ''0'' @ take 1 mm) @ ''-'' @
         (if length dd \<ge> 2 then dd else ''0'' @ take 1 dd))"

subsection \<open>The node and the data it returns\<close>

record block_tx =
  tx_hash :: string
  tx_input0_script :: string

record block_header =
  hdr_version :: int
  hdr_merkleRoot :: string
  hdr_time :: int
  hdr_nonce :: string
  hdr_solution :: string
  hdr_bits :: nat
  hdr_prevHash :: string

record block =
  blk_hash :: string
  blk_header :: block_header
  blk_transactions :: "block_tx list"
  blk_buffer_length :: nat
  blk_difficulty :: real

record header_info =
  info_height :: int
  info_confirmations :: int
  info_chainWork :: string
  info_nextHash :: "string option"
  info_hash :: string

record detailed_tx =
  dt_outputs :: "tx_output list"

datatype node_call =
    GetBlock string
  | GetRawBlock string
  | BitcoindGetRawBlock string
  | GetBlockHeader string
  | ClientGetBlock string
  | GetDetailedTransaction "string option"
  | GetBlockHashesByTimestamp "int option" "int option"

text \<open>
  The collaborators: each call answers with an error or a value (the two arguments of
  the callback). \<open>bitcoind_height\<close> is the height of the current tip.
\<close>

record node =
  bitcoind_height :: int
  node_getBlock :: "string \<Rightarrow> js_err + block"
  node_getRawBlock :: "string \<Rightarrow> js_err + string"
  bitcoind_getRawBlock :: "string \<Rightarrow> js_err + string"
  bitcoind_getBlockHeader :: "string \<Rightarrow> js_err + header_info"
  client_getBlock :: "string \<Rightarrow> js_err + string list"
  getDetailedTransaction :: "string option \<Rightarrow> js_err + detailed_tx"
  bitcoind_getBlockHashesByTimestamp :: "int option \<Rightarrow> int option \<Rightarrow> js_err + string list"

subsection \<open>The controller\<close>

record block_detail =
  bd_hash :: string
  bd_size :: nat
  bd_height :: int
  bd_version :: int
  bd_merkleroot :: string
  bd_tx :: "string list"
  bd_time :: int
  bd_nonce :: string
  bd_solution :: string
  bd_bits :: string
  bd_difficulty :: real
  bd_chainwork :: string
  bd_confirmations :: int
  bd_previousblockhash :: "string option"
  bd_nextblockhash :: "string option"
  bd_reward :: real
  bd_minedBy :: "string option"
  bd_isMainChain :: bool
  bd_poolInfo :: "pool_value option"

record block_summary =
  bs_height :: int
  bs_size :: nat
  bs_hash :: string
  bs_time :: int
  bs_txlength :: nat
  bs_poolInfo :: "pool_value option"
  bs_minedBy :: "string option"

text \<open>The fields of \<^verbatim>\<open>this\<close> that change or are read, and the calls made to the node so far.\<close>

record state =
  blockSummaryCache :: "(string, block_summary) lru"
  blockCache :: "(string, block_detail) lru"
  poolStrings :: pool_object
  calls :: "node_call list"

definition blockCacheConfirmations :: int where
  "blockCacheConfirmations = 6"

definition BLOCK_LIMIT :: int where
  "BLOCK_LIMIT = 200"

definition DEFAULT_BLOCKSUMMARY_CACHE_SIZE :: int where
  "DEFAULT_BLOCKSUMMARY_CACHE_SIZE = 1000000"

definition DEFAULT_BLOCK_CACHE_SIZE :: int where
  "DEFAULT_BLOCK_CACHE_SIZE = 1000"

text \<open>\<^verbatim>\<open>options.size || DEFAULT\<close>: an absent or zero option takes the default.\<close>

definition option_or :: "int option \<Rightarrow> int \<Rightarrow> int" where
  "option_or x d = (case x of None \<Rightarrow> d | Some n \<Rightarrow> if n = 0 then d else n)"

definition BlockController :: "int option \<Rightarrow> int option \<Rightarrow> pool list \<Rightarrow> state" where
  "BlockController blockSummaryCacheSize blockCacheSize pools =
     \<lparr>blockSummaryCache = LRU (option_or blockSummaryCacheSize DEFAULT_BLOCKSUMMARY_CACHE_SIZE),
      blockCache = LRU (option_or blockCacheSize DEFAULT_BLOCK_CACHE_SIZE),
      poolStrings = poolStrings_of pools,
      calls = []\<rparr>"

definition called :: "node_call \<Rightarrow> state \<Rightarrow> state" where
  "called c st = st\<lparr>calls := calls st @ [c]\<rparr>"

definition not_found_code :: "js_err \<Rightarrow> bool" where
  "not_found_code err = (err_code err = Some (- 5) \<or> err_code err = Some (- 8))"

definition normalizePrevHash :: "string \<Rightarrow> string option" where
  "normalizePrevHash h =
     (if h \<noteq> ''0000000000000000000000000000000000000000000000000000000000000000'' then Some h
      else None)"

definition transformBlock ::
  "env \<Rightarrow> pool_object \<Rightarrow> block \<Rightarrow> header_info \<Rightarrow> detailed_tx option \<Rightarrow>
   js_exception + block_detail" where
  "transformBlock e ps blk info transaction =
     (let transactionIds = map tx_hash (blk_transactions blk);
          poolAddress =
            (case transaction of
               None \<Rightarrow> None
             | Some trx \<Rightarrow> minerAddress (getBlockReward (info_height info)) (dt_outputs trx))
      in case blk_transactions blk of
           [] \<Rightarrow> Inl TypeError
         | tx0 # _ \<Rightarrow>
             (case getPoolInfo (RegExp_engine e) ps (tx_input0_script tx0) of
                Inl ex \<Rightarrow> Inl ex
              | Inr poolInfo \<Rightarrow>
                  Inr \<lparr>bd_hash = blk_hash blk,
                       bd_size = blk_buffer_length blk,
                       bd_height = info_height info,
                       bd_version = hdr_version (blk_header blk),
                       bd_merkleroot = hdr_merkleRoot (blk_header blk),
                       bd_tx = transactionIds,
                       bd_time = hdr_time (blk_header blk),
                       bd_nonce = hdr_nonce (blk_header blk),
                       bd_solution = hdr_solution (blk_header blk),
                       bd_bits = nat_toString 16 (hdr_bits (blk_header blk)),
                       bd_difficulty = blk_difficulty blk,
                       bd_chainwork = info_chainWork info,
                       bd_confirmations = info_confirmations info,
                       bd_previousblockhash = normalizePrevHash (hdr_prevHash (blk_header blk)),
                       bd_nextblockhash = info_nextHash info,
                       bd_reward = real_of_int (getBlockReward (info_height info)) / 100000000,
                       bd_minedBy = poolAddress,
                       bd_isMainChain = (info_confirmations info \<noteq> - 1),
                       bd_poolInfo = poolInfo\<rparr>))"

text \<open>
  \<^verbatim>\<open>BlockController.prototype.block\<close>. On a hit the cached object itself gets the new
  \<^verbatim>\<open>confirmations\<close>, so the cache holds the updated record. The callback of
  \<^verbatim>\<open>getDetailedTransaction\<close> does not read its \<^verbatim>\<open>err\<close>: a failed call leaves
  \<^verbatim>\<open>trx\<close> undefined.
\<close>

definition block :: "env \<Rightarrow> node \<Rightarrow> string \<Rightarrow> state \<Rightarrow> block_detail outcome \<times> state" where
  "block e nd hash st =
     (case lru_get hash (blockCache st) of
        (Some blockCached, cache) \<Rightarrow>
          (let blockCached' =
                 blockCached\<lparr>bd_confirmations := bitcoind_height nd - bd_height blockCached + 1\<rparr>
           in (Done blockCached',
               st\<lparr>blockCache := cache\<lparr>lru_entries := (hash, blockCached') # tl (lru_entries cache)\<rparr>\<rparr>))
      | (None, cache) \<Rightarrow>
          (let st1 = called (GetBlock hash) (st\<lparr>blockCache := cache\<rparr>) in
           case node_getBlock nd hash of
             Inl err \<Rightarrow>
               (if not_found_code err then (HandleErrors None, st1)
                else (HandleErrors (Some err), st1))
           | Inr blk \<Rightarrow>
               (let st2 = called (GetBlockHeader hash) st1 in
                case bitcoind_getBlockHeader nd hash of
                  Inl err \<Rightarrow> (HandleErrors (Some err), st2)
                | Inr info \<Rightarrow>
                    (case blk_transactions blk of
                       [] \<Rightarrow> (Thrown TypeError, st2)
                     | tx0 # _ \<Rightarrow>
                         (let txHash = tx_hash tx0;
                              st3 = called (GetDetailedTransaction (Some txHash)) st2;
                              trx = (case getDetailedTransaction nd (Some txHash) of
                                       Inl err \<Rightarrow> None
                                     | Inr t \<Rightarrow> Some t)
                          in case transformBlock e (poolStrings st3) blk info trx of
                               Inl ex \<Rightarrow> (Thrown ex, st3)
                             | Inr blockResult \<Rightarrow>
                                 (if bd_confirmations blockResult \<ge> blockCacheConfirmations
                                  then (Done blockResult,
                                        st3\<lparr>blockCache := lru_set hash blockResult (blockCache st3)\<rparr>)
                                  else (Done blockResult, st3)))))))"

definition rawBlock :: "node \<Rightarrow> string \<Rightarrow> state \<Rightarrow> string outcome \<times> state" where
  "rawBlock nd blockHash st =
     (let st1 = called (GetRawBlock blockHash) st in
      case node_getRawBlock nd blockHash of
        Inl err \<Rightarrow>
          (if not_found_code err then (HandleErrors None, st1)
           else (HandleErrors (Some err), st1))
      | Inr blockBuffer \<Rightarrow> (Done (buffer_toString_hex blockBuffer), st1))"

subsection \<open>Block summaries and the listing\<close>

text \<open>
  How \<^verbatim>\<open>_getBlockSummary\<close> answers: \<^verbatim>\<open>next(err)\<close>, \<^verbatim>\<open>next(null, result)\<close>, or an
  exception that escapes the callback.
\<close>

datatype 'a callback = Failed js_err | Result 'a | Raised js_exception

text \<open>
  The inner function \<^verbatim>\<open>finish\<close>. Its assignment goes to \<^verbatim>\<open>moreTimestamp\<close>, the
  parameter of \<^verbatim>\<open>_getBlockSummary\<close>: a number passed by value, so the new value
  lives in this call only and nothing reads it afterwards.
\<close>

definition finish :: "int option \<Rightarrow> block_summary \<Rightarrow> block_summary callback" where
  "finish moreTimestamp result =
     (let moreTimestamp' =
            (if num_gt moreTimestamp (Some (bs_time result)) then Some (bs_time result)
             else moreTimestamp)
      in Result result)"

text \<open>
  \<^verbatim>\<open>_getBlockSummary\<close>. The callbacks of the native \<^verbatim>\<open>client.getBlock\<close> and of
  \<^verbatim>\<open>getDetailedTransaction\<close> do not read their \<^verbatim>\<open>err\<close>: after a failed native call
  \<^verbatim>\<open>response.result.tx\<close> is a property of \<^verbatim>\<open>null\<close> or \<^verbatim>\<open>undefined\<close>, and after a
  failed transaction lookup so is \<^verbatim>\<open>trx.outputs\<close> (TypeError).
\<close>

definition getBlockSummary ::
  "env \<Rightarrow> node \<Rightarrow> string \<Rightarrow> int option \<Rightarrow> state \<Rightarrow> block_summary callback \<times> state" where
  "getBlockSummary e nd hash moreTimestamp st =
     (case lru_get hash (blockSummaryCache st) of
        (Some summaryCache, cache) \<Rightarrow>
          (finish moreTimestamp summaryCache, st\<lparr>blockSummaryCache := cache\<rparr>)
      | (None, cache) \<Rightarrow>
          (let st1 = called (BitcoindGetRawBlock hash) (st\<lparr>blockSummaryCache := cache\<rparr>) in
           case bitcoind_getRawBlock nd hash of
             Inl err \<Rightarrow> (Failed err, st1)
           | Inr blockBuffer \<Rightarrow>
               (let parsed = bitcore_parse e blockBuffer;
                    st2 = called (ClientGetBlock hash) st1
                in case client_getBlock nd hash of
                     Inl err \<Rightarrow> (Raised TypeError, st2)
                   | Inr tx \<Rightarrow>
                       (let txHash = (case tx of [] \<Rightarrow> None | t # _ \<Rightarrow> Some t);
                            st3 = called (GetDetailedTransaction txHash) st2;
                            trx = (case getDetailedTransaction nd txHash of
                                     Inl err \<Rightarrow> None
                                   | Inr t \<Rightarrow> Some t);
                            st4 = called (GetBlockHeader hash) st3
                        in case bitcoind_getBlockHeader nd hash of
                             Inl err \<Rightarrow> (Failed err, st4)
                           | Inr blockHeader \<Rightarrow>
                               (case trx of
                                  None \<Rightarrow> (Raised TypeError, st4)
                                | Some t \<Rightarrow>
                                    (let height = info_height blockHeader;
                                         reward = getBlockReward height;
                                         poolAddress = minerAddress reward (dt_outputs t)
                                     in case getPoolInfo (RegExp_engine e) (poolStrings st4)
                                               (pb_coinbase_script parsed) of
                                          Inl ex \<Rightarrow> (Raised ex, st4)
                                        | Inr poolInfo \<Rightarrow>
                                            (let summary =
                                                   \<lparr>bs_height = height,
                                                    bs_size = length blockBuffer,
                                                    bs_hash = hash,
                                                    bs_time = pb_header_time parsed,
                                                    bs_txlength = pb_txlength parsed,
                                                    bs_poolInfo = poolInfo,
                                                    bs_minedBy = poolAddress\<rparr>;
                                                 confirmations = bitcoind_height nd - height + 1;
                                                 st5 = (if confirmations \<ge> blockCacheConfirmations
                                                        then st4\<lparr>blockSummaryCache :=
                                                               lru_set hash summary (blockSummaryCache st4)\<rparr>
                                                        else st4)
                                             in (finish moreTimestamp summary, st5))))))))"

text \<open>
  \<^verbatim>\<open>async.mapSeries\<close> with the iterator of \<^verbatim>\<open>list\<close>: one hash after the other, each
  call given the value of the variable \<^verbatim>\<open>moreTimestamp\<close> of \<^verbatim>\<open>list\<close>; the first
  error ends the series.
\<close>

fun mapSeries ::
  "env \<Rightarrow> node \<Rightarrow> int option \<Rightarrow> string list \<Rightarrow> state \<Rightarrow> block_summary list callback \<times> state" where
  "mapSeries e nd moreTimestamp [] st = (Result [], st)"
| "mapSeries e nd moreTimestamp (hash # hashes) st =
     (case getBlockSummary e nd hash moreTimestamp st of
        (Failed err, st') \<Rightarrow> (Failed err, st')
      | (Raised ex, st') \<Rightarrow> (Raised ex, st')
      | (Result summary, st') \<Rightarrow>
          (case mapSeries e nd moreTimestamp hashes st' of
             (Failed err, st'') \<Rightarrow> (Failed err, st'')
           | (Raised ex, st'') \<Rightarrow> (Raised ex, st'')
           | (Result summaries, st'') \<Rightarrow> (Result (summary # summaries), st'')))"

record listing_request =
  blockDate :: "string option"
  startTimestamp :: "string option"
  limit :: "string option"

text \<open>The member \<^verbatim>\<open>moreTs\<close> is present only when \<^verbatim>\<open>more\<close> is true.\<close>

record pagination =
  pg_next :: "string option"
  pg_prev :: string
  pg_currentTs :: "int option"
  pg_current :: string
  pg_isToday :: bool
  pg_more :: bool
  pg_moreTs :: "int option option"

record listing =
  lst_blocks :: "block_summary list"
  lst_length :: nat
  lst_pagination :: pagination

text \<open>\<^verbatim>\<open>/\d{4}-\d{2}-\d{2}/.test(s)\<close>: the pattern has no anchors, it is searched for in \<open>s\<close>.\<close>

definition datePattern_here :: "string \<Rightarrow> bool" where
  "datePattern_here s =
     (length s \<ge> 10 \<and> list_all digit_char (take 4 s) \<and> s ! 4 = CHR ''-'' \<and>
      list_all digit_char (take 2 (drop 5 s)) \<and> s ! 7 = CHR ''-'' \<and>
      list_all digit_char (take 2 (drop 8 s)))"

fun datePattern_test :: "string \<Rightarrow> bool" where
  "datePattern_test [] = False"
| "datePattern_test (c # cs) = (datePattern_here (c # cs) \<or> datePattern_test cs)"

text \<open>A date string that is well-formed as yyyy-mm-dd, in the words of the specification.\<close>

definition well_formed_date :: "string \<Rightarrow> bool" where
  "well_formed_date s = (length s = 10 \<and> datePattern_here s)"

text \<open>\<^verbatim>\<open>hashes.slice(0, limit)\<close>: a negative end counts from the end of the array.\<close>

definition slice0 :: "'a list \<Rightarrow> int \<Rightarrow> 'a list" where
  "slice0 xs n = (if n < 0 then take (nat (int (length xs) + n)) xs else take (nat n) xs)"

text \<open>
  \<^verbatim>\<open>blocks.sort(function (a, b) { return b.height - a.height; })\<close>: descending by
  height; blocks of equal height keep their order (a stable sort).
\<close>

definition sort_blocks :: "block_summary list \<Rightarrow> block_summary list" where
  "sort_blocks bs = sort_key (\<lambda>b. - bs_height b) bs"

text \<open>
  \<^verbatim>\<open>BlockController.prototype.list\<close>, in two parts. First the statements before the
  call to the node (the variables of \<^verbatim>\<open>list\<close>, or the format error), then the call
  of \<^verbatim>\<open>getBlockHashesByTimestamp\<close> with its callback.
\<close>

record list_vars =
  lv_dateStr :: string
  lv_isToday :: bool
  lv_gte :: "int option"
  lv_lte :: "int option"
  lv_prev :: string
  lv_next :: "string option"
  lv_limit :: "int option"

definition list_prepare :: "env \<Rightarrow> listing_request \<Rightarrow> js_err + list_vars" where
  "list_prepare e req =
     (let todayStr = formatTimestamp e (Some (Date_now e));
          checked =
            (case blockDate req of
               None \<Rightarrow> Inr (todayStr, True)
             | Some d \<Rightarrow>
                 if d = [] then Inr (todayStr, True)
                 else if \<not> datePattern_test d
                 then Inl (Err None ''Please use yyyy-mm-dd format'')
                 else Inr (d, d = todayStr))
      in case checked of
           Inl err \<Rightarrow> Inl err
         | Inr (dateStr, isToday) \<Rightarrow>
             (let gte = map_option (\<lambda>ms. (ms + 500) div 1000) (Date_parse e dateStr);
                  start = (case startTimestamp req of None \<Rightarrow> None | Some s \<Rightarrow> parseInt e s);
                  lte = (if num_truthy start then start else map_option (\<lambda>g. g + 86400) gte);
                  prev = formatTimestamp e (new_Date (map_option (\<lambda>g. (g - 86400) * 1000) gte));
                  next = (if num_truthy lte
                          then Some (formatTimestamp e (new_Date (map_option (\<lambda>l. l * 1000) lte)))
                          else None);
                  lmt = (case limit req of
                           None \<Rightarrow> Some BLOCK_LIMIT
                         | Some l \<Rightarrow> if l = [] then Some BLOCK_LIMIT else parseInt e l)
              in Inr \<lparr>lv_dateStr = dateStr, lv_isToday = isToday, lv_gte = gte, lv_lte = lte,
                      lv_prev = prev, lv_next = next, lv_limit = lmt\<rparr>))"

text \<open>
  \<^verbatim>\<open>hashes.reverse(); if (hashes.length > limit) { more = true; hashes = hashes.slice(0, limit); }\<close>,
  as the pair of \<^verbatim>\<open>more\<close> and the hashes kept. A comparison with \<^verbatim>\<open>NaN\<close> is false.
\<close>

definition list_retain :: "int option \<Rightarrow> string list \<Rightarrow> bool \<times> string list" where
  "list_retain lmt hashes =
     (let reversed = rev hashes in
      case lmt of
        None \<Rightarrow> (False, reversed)
      | Some l \<Rightarrow>
          if int (length reversed) > l then (True, slice0 reversed l) else (False, reversed))"

definition list :: "env \<Rightarrow> node \<Rightarrow> listing_request \<Rightarrow> state \<Rightarrow> listing outcome \<times> state" where
  "list e nd req st =
     (case list_prepare e req of
        Inl err \<Rightarrow> (HandleErrors (Some err), st)
      | Inr v \<Rightarrow>
          (let moreTimestamp = lv_lte v;
               st1 = called (GetBlockHashesByTimestamp (lv_lte v) (lv_gte v)) st
           in case bitcoind_getBlockHashesByTimestamp nd (lv_lte v) (lv_gte v) of
                Inl err \<Rightarrow> (HandleErrors (Some err), st1)
              | Inr hashes \<Rightarrow>
                  (case list_retain (lv_limit v) hashes of
                     (more', hashes') \<Rightarrow>
                       (case mapSeries e nd moreTimestamp hashes' st1 of
                          (Failed err, st2) \<Rightarrow> (HandleErrors (Some err), st2)
                        | (Raised ex, st2) \<Rightarrow> (Thrown ex, st2)
                        | (Result blocks, st2) \<Rightarrow>
                            (let sorted_blocks = sort_blocks blocks;
                                 data =
                                   \<lparr>lst_blocks = sorted_blocks,
                                    lst_length = length sorted_blocks,
                                    lst_pagination =
                                      \<lparr>pg_next = lv_next v,
                                       pg_prev = lv_prev v,
                                       pg_currentTs = map_option (\<lambda>l. l - 1) (lv_lte v),
                                       pg_current = lv_dateStr v,
                                       pg_isToday = lv_isToday v,
                                       pg_more = more',
                                       pg_moreTs = (if more' then Some moreTimestamp else None)\<rparr>\<rparr>
                             in (Done data, st2))))))"

text \<open>
  What the specification says \<^verbatim>\<open>moreTs\<close> is: the minimum \<^verbatim>\<open>time\<close> among the
  summaries returned.
\<close>

definition min_time :: "block_summary list \<Rightarrow> int" where
  "min_time blocks = Min (set (map bs_time blocks))"

subsection \<open>Signatures that are matched literally\<close>

text \<open>
  A signature with no character of the regular-expression syntax, which is not a
  canonical array index (such a key would be visited before the others) and is not
  \<^verbatim>\<open>__proto__\<close> (which would not become a key).
\<close>

definition plain_signature :: "string \<Rightarrow> bool" where
  "plain_signature k =
     (list_all (\<lambda>c. \<not> regexp_syntax_char c) k \<and> \<not> is_array_index k \<and> k \<noteq> ''__proto__'')"

text \<open>One assignment \<^verbatim>\<open>self.poolStrings[s] = {...}\<close> to a key that becomes an own property.\<close>

definition assign :: "(string \<times> 'v) list \<Rightarrow> string \<times> 'v \<Rightarrow> (string \<times> 'v) list" where
  "assign props entry = AList.update (fst entry) (snd entry) props"

subsection \<open>A small chain for the examples\<close>

text \<open>
  Three blocks A, B, C at heights 2106398 to 2106400 with block times 1704100000,
  1704110000 and 1704120000 (1 January 2024), and a hash X the node does not know. The
  node is given the height of the tip and the answer of its timestamp index. The runtime
  of the examples has a clock at 2 January 2024 and a calendar for 31 December 2023 and
  January 2024.
\<close>

definition hashA :: string where
  "hashA = ''000000000000000000000000000000000000000000000000000000000000000a''"

definition hashB :: string where
  "hashB = ''000000000000000000000000000000000000000000000000000000000000000b''"

definition hashC :: string where
  "hashC = ''000000000000000000000000000000000000000000000000000000000000000c''"

definition hashX :: string where
  "hashX = ''00000000000000000000000000000000000000000000000000000000000000ff''"

definition example_known :: "string \<Rightarrow> bool" where
  "example_known h = (h = hashA \<or> h = hashB \<or> h = hashC)"

definition example_height :: "string \<Rightarrow> int" where
  "example_height h = (if h = hashA then 2106398 else if h = hashB then 2106399 else 2106400)"

definition example_time :: "string \<Rightarrow> int" where
  "example_time h =
     (if h = hashA then 1704100000 else if h = hashB then 1704110000 else 1704120000)"

definition example_raw :: "string \<Rightarrow> string" where
  "example_raw h = (if h = hashA then ''rawA'' else if h = hashB then ''rawB'' else ''rawC'')"

definition not_found :: js_err where
  "not_found = Err (Some (- 5)) ''Block not found''"

definition example_block :: "string \<Rightarrow> block" where
  "example_block h =
     \<lparr>blk_hash = h,
      blk_header =
        \<lparr>hdr_version = 4, hdr_merkleRoot = ''4a5e1e'', hdr_time = example_time h,
         hdr_nonce = ''00ff'', hdr_solution = ''0a0b'', hdr_bits = 486604799,
         hdr_prevHash = hashX\<rparr>,
      blk_transactions = [\<lparr>tx_hash = ''coinbase of '' @ h, tx_input0_script = ''..Mined by AntPool..''\<rparr>],
      blk_buffer_length = 1500,
      blk_difficulty = 1\<rparr>"

definition example_trx :: detailed_tx where
  "example_trx =
     \<lparr>dt_outputs = [\<lparr>satoshis = 500000000, address = Some ''t1Fund''\<rparr>,
                    \<lparr>satoshis = 500012345, address = Some ''t1Miner''\<rparr>]\<rparr>"

definition example_node :: "int \<Rightarrow> string list \<Rightarrow> node" where
  "example_node tip index =
     \<lparr>bitcoind_height = tip,
      node_getBlock = (\<lambda>h. if example_known h then Inr (example_block h) else Inl not_found),
      node_getRawBlock = (\<lambda>h. if example_known h then Inr (example_raw h) else Inl not_found),
      bitcoind_getRawBlock = (\<lambda>h. if example_known h then Inr (example_raw h) else Inl not_found),
      bitcoind_getBlockHeader =
        (\<lambda>h. if example_known h
              then Inr \<lparr>info_height = example_height h,
                        info_confirmations = tip - example_height h + 1,
                        info_chainWork = ''0100'', info_nextHash = None, info_hash = h\<rparr>
              else Inl not_found),
      client_getBlock = (\<lambda>h. if example_known h then Inr [''coinbase of '' @ h] else Inl not_found),
      getDetailedTransaction = (\<lambda>t. Inr example_trx),
      bitcoind_getBlockHashesByTimestamp = (\<lambda>high low. Inr index)\<rparr>"

definition example_env :: env where
  "example_env =
     \<lparr>RegExp_engine = (\<lambda>pattern subject. None),
      Date_now = 1704190000000,
      Date_parse =
        (\<lambda>s. if s = ''2024-01-01'' then Some 1704067200000
              else if s = ''2024-01-02'' then Some 1704153600000 else None),
      Date_getUTCFullYear = (\<lambda>t. if t < 1704067200000 then 2023 else 2024),
      Date_getUTCMonth = (\<lambda>t. if t < 1704067200000 then 11 else 0),
      Date_getUTCDate = (\<lambda>t. if t < 1704067200000 then 31 else t div 86400000 - 19722),
      parseInt = (\<lambda>s. if s \<noteq> [] \<and> list_all digit_char s then Some (int (dec_value s)) else None),
      bitcore_parse =
        (\<lambda>buf. \<lparr>pb_header_time =
                    (if buf = ''rawA'' then 1704100000 else if buf = ''rawB'' then 1704110000
                     else 1704120000),
                  pb_txlength = 1,
                  pb_coinbase_script = ''..Mined by AntPool..''\<rparr>)\<rparr>"

definition example_pools :: "pool list" where
  "example_pools =
     [\<lparr>poolName = ''SlushPool'', url = ''https://slushpool.com'', searchStrings = [''/slush/'']\<rparr>,
      \<lparr>poolName = ''AntPool'', url = ''https://antpool.com'',
        searchStrings = [''AntPool'', ''Mined by AntPool'']\<rparr>]"

definition example_state :: state where
  "example_state = BlockController None None example_pools"

definition example_detail :: "string \<Rightarrow> int \<Rightarrow> block_detail" where
  "example_detail h confirmations =
     \<lparr>bd_hash = h, bd_size = 1500, bd_height = example_height h, bd_version = 4,
      bd_merkleroot = ''4a5e1e'', bd_tx = [''coinbase of '' @ h], bd_time = example_time h,
      bd_nonce = ''00ff'', bd_solution = ''0a0b'', bd_bits = ''1d00ffff'', bd_difficulty = 1,
      bd_chainwork = ''0100'', bd_confirmations = confirmations,
      bd_previousblockhash = Some hashX, bd_nextblockhash = None, bd_reward = 10,
      bd_minedBy = Some ''t1Miner'', bd_isMainChain = True,
      bd_poolInfo = Some (Pool \<lparr>poolName = ''AntPool'', url = ''https://antpool.com''\<rparr>)\<rparr>"

definition example_summary :: "string \<Rightarrow> block_summary" where
  "example_summary h =
     \<lparr>bs_height = example_height h, bs_size = 4, bs_hash = h, bs_time = example_time h,
      bs_txlength = 1,
      bs_poolInfo = Some (Pool \<lparr>poolName = ''AntPool'', url = ''https://antpool.com''\<rparr>),
      bs_minedBy = Some ''t1Miner''\<rparr>"

text \<open>An error without a not-found code, for the examples.\<close>

definition refused :: js_err where
  "refused = Err None ''connect ECONNREFUSED''"

section \<open>Properties\<close>

subsection \<open>The reward schedule\<close>

lemma getBlockReward_eq_schedule: "getBlockReward h = reward_schedule h"
  by (simp add: getBlockReward_def reward_schedule_def BN_shrn_def Let_def drop_bit_eq_div)

lemma BN_shrn_bounds: "0 \<le> x \<Longrightarrow> 0 \<le> BN_shrn x n \<and> BN_shrn x n \<le> x"
proof -
  assume x: "0 \<le> x"
  have p: "(1::int) \<le> 2 ^ n" by simp
  have "x div 2 ^ n \<le> x div 1" using x p by (intro zdiv_mono2) simp_all
  moreover have "0 \<le> x div 2 ^ n" using x by (simp add: pos_imp_zdiv_nonneg_iff)
  ultimately show ?thesis by (simp add: BN_shrn_def drop_bit_eq_div)
qed

text \<open>
  Claim C2. For every height \<open>h \<ge> 0\<close>, \<^verbatim>\<open>getBlockReward(h)\<close> is the integer schedule
  of the specification: with base \<open>20 * 10^8\<close>, \<open>base / 4000 * h\<close> below 2000 (so the
  reward at height 0 is 0), \<open>base / 4000 * (h + 1)\<close> below 4000, and from there, with
  \<open>halvings = (h - 2000) div 2102400\<close>, 0 when \<open>halvings \<ge> 64\<close> and the base shifted right
  by \<open>halvings\<close> bits otherwise. The result stays between 0 and the base, far inside the
  range where a JavaScript number is exact: nothing overflows.
\<close>

theorem getBlockReward_schedule:
  assumes "0 \<le> h"
  shows "getBlockReward h = reward_schedule h \<and> getBlockReward 0 = 0 \<and>
         0 \<le> getBlockReward h \<and> getBlockReward h \<le> 20 * 10 ^ 8"
proof -
  have b: "0 \<le> BN_shrn 2000000000 n \<and> BN_shrn 2000000000 n \<le> 2000000000" for n
    using BN_shrn_bounds [of 2000000000 n] by simp
  have "0 \<le> getBlockReward h \<and> getBlockReward h \<le> 2000000000"
    using assms b by (auto simp: getBlockReward_def Let_def)
  moreover have "getBlockReward 0 = 0"
    by (simp add: getBlockReward_def)
  ultimately show ?thesis
    by (simp add: getBlockReward_eq_schedule)
qed

theorem getBlockReward_schedule_witness:
  "(0::int) \<le> 6308800 \<and> getBlockReward 6308800 = reward_schedule 6308800 \<and>
   reward_schedule 6308800 = 20 * 10 ^ 8 div 2 ^ 2 \<and> getBlockReward 6308800 = 500000000"
  using getBlockReward_schedule [of 6308800]
  by (simp add: reward_schedule_def)

lemma reward_before_first_halving:
  "4000 \<le> h \<Longrightarrow> h < 2104400 \<Longrightarrow> getBlockReward h = 2000000000"
  by (simp add: getBlockReward_def BN_shrn_def Let_def)

lemma reward_after_first_halving:
  assumes "2104400 \<le> h" "h < 4206800"
  shows "getBlockReward h = 1000000000"
proof -
  have "(h - 2000) div 2102400 = 1"
    using assms by (intro int_div_pos_eq [of _ _ _ "h - 2000 - 2102400"]) simp_all
  with assms show ?thesis
    by (simp add: getBlockReward_def BN_shrn_def Let_def drop_bit_eq_div)
qed

text \<open>
  Claim C7 (as amended). The claim puts the first halving at the step from height
  \<open>4000 + 2102400 - 1\<close> to \<open>4000 + 2102400\<close>. The code counts halvings from height 2000,
  the slow-start shift: the reward is the full 2000000000 from height 4000 up to and
  including height \<open>2000 + 2102400 - 1 = 2104399\<close>, and it is halved once, 1000000000,
  from height 2104400 up to 4206799. The heights \<open>4000 + 2102400 - 1\<close> and
  \<open>4000 + 2102400\<close> both lie after that boundary and carry the same, once-halved reward.
\<close>

theorem first_halving_at_2104400:
  "(4000 \<le> h \<and> h < 2104400 \<longrightarrow> getBlockReward h = 2000000000) \<and>
   (2104400 \<le> h \<and> h < 4206800 \<longrightarrow> getBlockReward h = 1000000000)"
  using reward_before_first_halving [of h] reward_after_first_halving [of h]
  by blast

theorem first_halving_at_2104400_witness:
  "getBlockReward 4000 = 2000000000 \<and> getBlockReward 2104399 = 2000000000 \<and>
   getBlockReward 2104400 = 1000000000 \<and>
   getBlockReward (4000 + 2102400 - 1) = 1000000000 \<and>
   getBlockReward (4000 + 2102400) = 1000000000"
  using first_halving_at_2104400 [of 4000] first_halving_at_2104400 [of 2104399]
    first_halving_at_2104400 [of 2104400] first_halving_at_2104400 [of 2106399]
    first_halving_at_2104400 [of 2106400]
  by simp

text \<open>
  The claim C7 as stated fails: the reward at height \<open>4000 + 2102400 - 1\<close> is not the
  unhalved reward of height 4000.
\<close>

theorem halving_boundary_counterexample:
  "getBlockReward (4000 + 2102400 - 1) \<noteq> getBlockReward 4000"
  by (simp add: getBlockReward_def BN_shrn_def Let_def drop_bit_eq_div)

subsection \<open>Hash validation\<close>

lemma hex_char_iff: "hex_char c \<longleftrightarrow> c \<in> set ''0123456789abcdefABCDEF''"
proof
  assume h: "hex_char c"
  define n where "n = (of_char c :: nat)"
  have c: "c = char_of n" by (simp add: n_def)
  from h have "(48 \<le> n \<and> n \<le> 57) \<or> (97 \<le> n \<and> n \<le> 102) \<or> (65 \<le> n \<and> n \<le> 70)"
    by (simp add: hex_char_def n_def Let_def)
  then have "n \<in> {48, 49, 50, 51, 52, 53, 54, 55, 56, 57, 97, 98, 99, 100, 101, 102,
                   65, 66, 67, 68, 69, 70}"
    by simp arith
  then show "c \<in> set ''0123456789abcdefABCDEF''"
    unfolding c by (elim insertE emptyE) (simp_all add: char_of_def bit_Suc_0_iff)
next
  assume "c \<in> set ''0123456789abcdefABCDEF''"
  then show "hex_char c"
    by (auto simp: hex_char_def)
qed

text \<open>
  Claim C10. \<^verbatim>\<open>checkBlockHash\<close> rejects the request hash (it answers through
  \<^verbatim>\<open>handleErrors(null, res)\<close>) exactly when the hash is shorter than 64 characters or
  contains a character that is not a hexadecimal digit; otherwise it calls \<^verbatim>\<open>next()\<close>.
  So every hexadecimal string of length 64 or more passes, also one longer than a block
  hash.
\<close>

theorem checkBlockHash_rejects_iff:
  "(checkBlockHash hash = HandleErrors None \<longleftrightarrow>
      length hash < 64 \<or> (\<exists>c\<in>set hash. c \<notin> set ''0123456789abcdefABCDEF'')) \<and>
   (checkBlockHash hash = Done () \<longleftrightarrow>
      64 \<le> length hash \<and> (\<forall>c\<in>set hash. c \<in> set ''0123456789abcdefABCDEF''))"
proof -
  have all: "list_all hex_char hash \<longleftrightarrow> (\<forall>c\<in>set hash. c \<in> set ''0123456789abcdefABCDEF'')"
    unfolding list_all_iff hex_char_iff ..
  have ne: "64 \<le> length hash \<Longrightarrow> hash \<noteq> []" by auto
  show ?thesis
    unfolding checkBlockHash_def isHexadecimal_def all
    using ne by (cases "length hash < 64") auto
qed

theorem checkBlockHash_rejects_iff_witness:
  "checkBlockHash ''000000000019d6689c085ae165831e934ff763ae46a2a6c172b3f1b60a8ce26fabcDEF'' = Done () \<and>
   checkBlockHash ''000000000019d6689c085ae165831e934ff763ae46a2a6c172b3f1b60a8ce26'' = HandleErrors None \<and>
   checkBlockHash ''000000000019d6689c085ae165831e934ff763ae46a2a6c172b3f1b60a8ce26g'' = HandleErrors None"
  using checkBlockHash_rejects_iff [of "''000000000019d6689c085ae165831e934ff763ae46a2a6c172b3f1b60a8ce26fabcDEF''"]
    checkBlockHash_rejects_iff [of "''000000000019d6689c085ae165831e934ff763ae46a2a6c172b3f1b60a8ce26''"]
    checkBlockHash_rejects_iff [of "''000000000019d6689c085ae165831e934ff763ae46a2a6c172b3f1b60a8ce26g''"]
  by simp

subsection \<open>The miner address guess\<close>

lemma find_app:
  "find P (xs @ ys) = (case find P xs of None \<Rightarrow> find P ys | Some x \<Rightarrow> Some x)"
  by (induction xs) simp_all

lemma guess_loop_snoc:
  "guess_loop reward (outputs @ [x]) = guess_step reward (guess_loop reward outputs) x"
  by (simp add: guess_loop_def)

lemma eligible_snoc:
  "eligible reward (outputs @ [x]) =
     eligible reward outputs @ (if 2 * satoshis x \<noteq> reward \<and> satoshis x > 0 then [x] else [])"
  by (simp add: eligible_def)

lemma eligible_pos: "y \<in> set (eligible reward outputs) \<Longrightarrow> 0 < satoshis y"
  by (simp add: eligible_def)


lemma largest_snoc:
  "os \<noteq> [] \<Longrightarrow> largest (os @ [x]) = max (satoshis x) (largest os)"
  by (simp add: largest_def)

lemma largest_mem: "os \<noteq> [] \<Longrightarrow> \<exists>y\<in>set os. satoshis y = largest os"
proof -
  assume "os \<noteq> []"
  then have "Max (set (map satoshis os)) \<in> set (map satoshis os)"
    by (intro Max_in) simp_all
  then show ?thesis by (auto simp: largest_def)
qed

lemma largest_ge: "y \<in> set os \<Longrightarrow> satoshis y \<le> largest os"
  by (simp add: largest_def)

lemma first_largest_snoc_keep:
  assumes "os \<noteq> []" "satoshis x \<le> largest os"
  shows "first_largest (os @ [x]) = first_largest os"
proof -
  have m: "largest (os @ [x]) = largest os"
    using assms by (simp add: largest_snoc)
  obtain y where y: "y \<in> set os" "satoshis y = largest os"
    using largest_mem [OF assms(1)] by blast
  then have "find (\<lambda>output. satoshis output = largest os) os \<noteq> None"
    by (auto simp: find_None_iff)
  then show ?thesis
    using assms(1) m by (auto simp: first_largest_def find_app)
qed

lemma first_largest_snoc_new:
  assumes "os = [] \<or> largest os < satoshis x"
  shows "first_largest (os @ [x]) = Some x"
proof (cases "os = []")
  case True
  then show ?thesis by (simp add: first_largest_def largest_def)
next
  case False
  with assms have lt: "largest os < satoshis x" by simp
  then have m: "largest (os @ [x]) = satoshis x"
    using False by (simp add: largest_snoc)
  have "find (\<lambda>output. satoshis output = satoshis x) os = None"
    using lt largest_ge [of _ os] by (fastforce simp: find_None_iff)
  then show ?thesis
    using m by (simp add: first_largest_def find_app)
qed

lemma guess_loop_eligible:
  "guess_loop reward outputs =
     (case first_largest (eligible reward outputs) of
        None \<Rightarrow> (0, None)
      | Some output \<Rightarrow> (satoshis output, address output)) \<and>
   (eligible reward outputs \<noteq> [] \<longrightarrow>
      first_largest (eligible reward outputs) \<noteq> None \<and>
      satoshis (the (first_largest (eligible reward outputs))) = largest (eligible reward outputs))"
proof (induction outputs rule: rev_induct)
  case Nil
  then show ?case by (simp add: guess_loop_def eligible_def first_largest_def)
next
  case (snoc x xs)
  let ?E = "eligible reward xs"
  show ?case
  proof (cases "2 * satoshis x \<noteq> reward \<and> satoshis x > 0")
    case False
    have "guess_step reward (guess_loop reward xs) x = guess_loop reward xs"
    proof (cases "?E = []")
      case True
      with snoc False show ?thesis by (auto simp: guess_step_def first_largest_def)
    next
      case nonempty: False
      then have "0 < largest ?E"
        using largest_mem [OF nonempty] eligible_pos by metis
      with snoc False nonempty show ?thesis by (auto simp: guess_step_def)
    qed
    moreover have "eligible reward (xs @ [x]) = ?E"
      using False by (auto simp: eligible_snoc)
    ultimately show ?thesis using snoc by (simp add: guess_loop_snoc)
  next
    case True
    then have E': "eligible reward (xs @ [x]) = ?E @ [x]" by (simp add: eligible_snoc)
    show ?thesis
    proof (cases "?E = [] \<or> largest ?E < satoshis x")
      case new: True
      then have fl: "first_largest (?E @ [x]) = Some x" by (rule first_largest_snoc_new)
      have lg: "largest (?E @ [x]) = satoshis x"
        using new by (cases "?E = []") (auto simp: largest_snoc largest_def)
      have "guess_step reward (guess_loop reward xs) x = (satoshis x, address x)"
        using snoc True new by (cases "?E = []") (auto simp: guess_step_def first_largest_def)
      then show ?thesis by (simp add: guess_loop_snoc E' fl lg)
    next
      case old: False
      then have ne: "?E \<noteq> []" and le: "satoshis x \<le> largest ?E" by auto
      have fl: "first_largest (?E @ [x]) = first_largest ?E"
        using ne le by (rule first_largest_snoc_keep)
      have lg: "largest (?E @ [x]) = largest ?E"
        using ne le by (simp add: largest_snoc)
      have "guess_step reward (guess_loop reward xs) x = guess_loop reward xs"
        using snoc ne le by (auto simp: guess_step_def)
      then show ?thesis using snoc ne by (simp add: guess_loop_snoc E' fl lg)
    qed
  qed
qed

text \<open>
  Claim C4 (as amended). For every list of coinbase outputs and every reward, the guess
  is the address of the first output of largest amount among the outputs whose amount is
  positive and is not exactly half the reward, and it is absent when there is no such
  output: the loop starts from the amount 0 and replaces its choice only by a strictly
  larger amount, so ties keep the first seen and an output of amount 0 is never chosen.
  When every output has a positive amount this is the guess of the specification. For
  the outputs (500000000, A), (1000000000, B), (1000000000, C) and a reward whose half
  is 500000000 the guess is B.
\<close>

theorem minerAddress_first_largest_eligible:
  "minerAddress reward outputs =
     (case first_largest (eligible reward outputs) of
        None \<Rightarrow> None
      | Some output \<Rightarrow> address output) \<and>
   (list_all (\<lambda>output. satoshis output > 0) outputs \<longrightarrow>
      minerAddress reward outputs = spec_minerAddress reward outputs)"
proof -
  have main: "minerAddress reward outputs =
     (case first_largest (eligible reward outputs) of
        None \<Rightarrow> None
      | Some output \<Rightarrow> address output)"
    using guess_loop_eligible [of reward outputs]
    by (simp add: minerAddress_def split: option.splits)
  have "eligible reward outputs = filter (\<lambda>output. 2 * satoshis output \<noteq> reward) outputs"
    if "list_all (\<lambda>output. satoshis output > 0) outputs"
    using that unfolding eligible_def list_all_iff by (intro filter_cong) auto
  with main show ?thesis
    by (simp add: spec_minerAddress_def)
qed

theorem minerAddress_first_largest_eligible_witness:
  "list_all (\<lambda>output. satoshis output > 0)
     [\<lparr>satoshis = 500000000, address = Some ''A''\<rparr>,
      \<lparr>satoshis = 1000000000, address = Some ''B''\<rparr>,
      \<lparr>satoshis = 1000000000, address = Some ''C''\<rparr>] \<and>
   minerAddress 1000000000
     [\<lparr>satoshis = 500000000, address = Some ''A''\<rparr>,
      \<lparr>satoshis = 1000000000, address = Some ''B''\<rparr>,
      \<lparr>satoshis = 1000000000, address = Some ''C''\<rparr>] = Some ''B'' \<and>
   spec_minerAddress 1000000000
     [\<lparr>satoshis = 500000000, address = Some ''A''\<rparr>,
      \<lparr>satoshis = 1000000000, address = Some ''B''\<rparr>,
      \<lparr>satoshis = 1000000000, address = Some ''C''\<rparr>] = Some ''B''"
  using minerAddress_first_largest_eligible [of 1000000000
     "[\<lparr>satoshis = 500000000, address = Some ''A''\<rparr>,
       \<lparr>satoshis = 1000000000, address = Some ''B''\<rparr>,
       \<lparr>satoshis = 1000000000, address = Some ''C''\<rparr>]"]
  by (simp add: spec_minerAddress_def first_largest_def largest_def eligible_def)

text \<open>
  The claim C4 as stated fails on an output of amount 0: it is the largest (and only)
  output whose amount is not half the reward, and the code makes no guess.
\<close>

theorem minerAddress_zero_amount_counterexample:
  "minerAddress 10 [\<lparr>satoshis = 0, address = Some ''A''\<rparr>] = None \<and>
   spec_minerAddress 10 [\<lparr>satoshis = 0, address = Some ''A''\<rparr>] = Some ''A''"
  by (simp add: minerAddress_def guess_loop_def guess_step_def spec_minerAddress_def
      first_largest_def largest_def)

subsection \<open>The pool lookup\<close>

lemma dot_is_syntax: "regexp_syntax_char CHR ''.''"
  by (simp add: regexp_syntax_char_def)

lemma match_here_prefix:
  "list_all (\<lambda>c. \<not> regexp_syntax_char c) k \<Longrightarrow> match_here k s = prefix k s"
proof (induction k s rule: match_here.induct)
  case (3 p ps c cs)
  then have "p \<noteq> CHR ''.''" using dot_is_syntax by auto
  with 3 show ?case by (simp add: pattern_char_matches_def)
qed simp_all

lemma match_anywhere_sublist:
  "list_all (\<lambda>c. \<not> regexp_syntax_char c) k \<Longrightarrow> match_anywhere k s = occurs_in k s"
proof (induction s)
  case Nil
  then show ?case by (simp add: match_here_prefix occurs_in_def)
next
  case (Cons c cs)
  then show ?case by (simp add: match_here_prefix occurs_in_def sublist_Cons_right)
qed

lemma String_match_plain:
  "list_all (\<lambda>c. \<not> regexp_syntax_char c) k \<Longrightarrow>
   String_match engine text k = Some (occurs_in k text)"
  by (simp add: String_match_def match_anywhere_sublist list_all_iff)

lemma pool_scan_plain:
  "list_all (\<lambda>k. list_all (\<lambda>c. \<not> regexp_syntax_char c) k) ks \<Longrightarrow>
   pool_scan engine obj s ks =
     Inr (case find (\<lambda>k. occurs_in k s) ks of None \<Rightarrow> None | Some k \<Rightarrow> obj_get obj k)"
  by (induction ks) (simp_all add: String_match_plain)

lemma own_keys_no_index:
  "list_all (\<lambda>k. \<not> is_array_index k) (map fst props) \<Longrightarrow> own_keys props = map fst props"
proof -
  assume a: "list_all (\<lambda>k. \<not> is_array_index k) (map fst props)"
  then have "filter is_array_index (map fst props) = []"
    by (auto simp: list_all_iff filter_empty_conv)
  moreover have "filter (\<lambda>k. \<not> is_array_index k) (map fst props) = map fst props"
    using a by (auto simp: list_all_iff)
  ultimately show ?thesis by (simp add: own_keys_def)
qed

lemma obj_assign_own:
  "''__proto__'' \<notin> set ss \<Longrightarrow>
   foldl (\<lambda>obj' s. obj_assign obj' s v) obj ss =
     obj\<lparr>own_props := foldl assign (own_props obj) (map (\<lambda>s. (s, v)) ss)\<rparr>"
  by (induction ss arbitrary: obj) (auto simp: obj_assign_def assign_def)

lemma poolStrings_of_assign:
  assumes "''__proto__'' \<notin> set (map fst (configured_signatures pools))"
  shows "poolStrings_of pools =
           \<lparr>own_props = foldl assign [] (configured_signatures pools), prototype = None\<rparr>"
proof -
  have "foldl (\<lambda>obj pool.
        foldl (\<lambda>obj' s. obj_assign obj' s \<lparr>poolName = poolName pool, url = url pool\<rparr>)
          obj (searchStrings pool)) obj pools =
        obj\<lparr>own_props := foldl assign (own_props obj) (configured_signatures pools)\<rparr>"
    if "''__proto__'' \<notin> set (map fst (configured_signatures pools))" for obj
    using that
  proof (induction pools arbitrary: obj)
    case Nil
    then show ?case by (simp add: configured_signatures_def)
  next
    case (Cons p ps)
    from Cons.prems have here: "''__proto__'' \<notin> set (searchStrings p)"
      and rest: "''__proto__'' \<notin> set (map fst (configured_signatures ps))"
      by (auto simp: configured_signatures_def)
    show ?case
      using Cons.IH [OF rest] obj_assign_own [OF here]
      by (simp add: configured_signatures_def)
  qed
  from this [OF assms, of empty_object] show ?thesis
    by (simp add: poolStrings_of_def empty_object_def)
qed

lemma assign_keys:
  "map fst (assign props entry) =
     (if fst entry \<in> set (map fst props) then map fst props else map fst props @ [fst entry])"
  by (simp add: assign_def update_keys)

lemma assigned_keys:
  "set (map fst (foldl assign [] us)) = set (map fst us) \<and>
   find P (map fst (foldl assign [] us)) = find P (map fst us)"
proof (induction us rule: rev_induct)
  case Nil
  then show ?case by simp
next
  case (snoc u us)
  let ?obj = "foldl assign [] us"
  show ?case
  proof (cases "fst u \<in> set (map fst ?obj)")
    case True
    then have keys: "map fst (assign ?obj u) = map fst ?obj" by (simp add: assign_keys)
    have "find P (map fst us @ [fst u]) = find P (map fst us)"
    proof (cases "find P (map fst us)")
      case None
      then have "\<not> P (fst u)" using True snoc by (auto simp: find_None_iff)
      with None show ?thesis by (simp add: find_app)
    next
      case (Some a)
      then show ?thesis by (simp add: find_app)
    qed
    with keys snoc True show ?thesis by auto
  next
    case False
    then have "map fst (assign ?obj u) = map fst ?obj @ [fst u]" by (simp add: assign_keys)
    with snoc show ?thesis by (simp add: find_app)
  qed
qed

lemma assigned_values: "map_of (foldl assign [] us) = map_of (rev us)"
proof (induction us rule: rev_induct)
  case Nil
  then show ?case by simp
next
  case (snoc u us)
  then show ?case by (cases u) (simp add: assign_def update_conv')
qed

lemma getPoolInfo_plain:
  assumes "list_all plain_signature (map fst (configured_signatures pools))"
  shows "getPoolInfo engine (poolStrings_of pools) s =
     Inr (case find (\<lambda>k. occurs_in k s) (map fst (configured_signatures pools)) of
            None \<Rightarrow> None
          | Some k \<Rightarrow> map_option Pool (map_of (rev (configured_signatures pools)) k))"
proof -
  let ?us = "configured_signatures pools"
  let ?props = "foldl assign [] ?us"
  let ?obj = "\<lparr>own_props = ?props, prototype = None\<rparr>"
  have "''__proto__'' \<notin> set (map fst ?us)"
    using assms unfolding list_all_iff plain_signature_def by blast
  then have obj: "poolStrings_of pools = ?obj" by (rule poolStrings_of_assign)
  have keys: "set (map fst ?props) = set (map fst ?us)"
    using assigned_keys [of ?us] by blast
  have "list_all (\<lambda>k. \<not> is_array_index k) (map fst ?props)"
    using assms keys unfolding list_all_iff plain_signature_def by blast
  then have "own_keys ?props = map fst ?props" by (rule own_keys_no_index)
  then have order: "for_in_keys ?obj = map fst ?props" by (simp add: for_in_keys_def)
  have "list_all (\<lambda>k. list_all (\<lambda>c. \<not> regexp_syntax_char c) k) (map fst ?props)"
    using assms keys
    unfolding list_all_iff [of _ "map fst ?props"] list_all_iff [of _ "map fst ?us"]
      plain_signature_def
    by blast
  then have "pool_scan engine ?obj s (map fst ?props) =
     Inr (case find (\<lambda>k. occurs_in k s) (map fst ?props) of
            None \<Rightarrow> None
          | Some k \<Rightarrow> obj_get ?obj k)"
    by (rule pool_scan_plain)
  moreover have "find (\<lambda>k. occurs_in k s) (map fst ?props) = find (\<lambda>k. occurs_in k s) (map fst ?us)"
    using assigned_keys [of ?us] by blast
  moreover have "obj_get ?obj k = map_option Pool (map_of (rev ?us) k)" for k
    by (simp add: obj_get_def assigned_values split: option.splits)
  ultimately show ?thesis
    by (simp add: getPoolInfo_def obj order cong: option.case_cong)
qed

lemma find_map_fst:
  "find P (map fst xs) = map_option fst (find (\<lambda>entry. P (fst entry)) xs)"
  by (induction xs) simp_all

lemma spec_getPoolInfo_distinct:
  assumes "distinct (map fst (configured_signatures pools))"
  shows "map_option Pool (spec_getPoolInfo pools s) =
     (case find (\<lambda>k. occurs_in k s) (map fst (configured_signatures pools)) of
            None \<Rightarrow> None
          | Some k \<Rightarrow> map_option Pool (map_of (rev (configured_signatures pools)) k))"
proof -
  let ?us = "configured_signatures pools"
  have fm: "find (\<lambda>k. occurs_in k s) (map fst ?us) =
            map_option fst (find (\<lambda>entry. occurs_in (fst entry) s) ?us)"
    by (rule find_map_fst)
  show ?thesis
  proof (cases "find (\<lambda>entry. occurs_in (fst entry) s) ?us")
    case None
    then show ?thesis by (simp add: spec_getPoolInfo_def fm)
  next
    case (Some entry)
    then have "entry \<in> set ?us" by (auto simp: find_Some_iff)
    then have "(fst entry, snd entry) \<in> set (rev ?us)" by simp
    moreover have "distinct (map fst (rev ?us))" using assms by (simp add: rev_map [symmetric])
    ultimately have "map_of (rev ?us) (fst entry) = Some (snd entry)"
      by (rule map_of_is_SomeI [rotated])
    with Some show ?thesis by (simp add: spec_getPoolInfo_def fm)
  qed
qed

text \<open>
  Claim C6 (as amended). The lookup reads each configured signature as a regular
  expression, in the order of \<^verbatim>\<open>for ... in\<close> over the object built by the
  constructor. For every configuration whose signatures are plain (no character of the
  regular-expression syntax, not an array index, not \<^verbatim>\<open>__proto__\<close>), it returns the
  pool last configured for the first signature, in configuration order, that occurs as a
  substring of the decoded coinbase text, and the empty object when no signature occurs;
  when the signatures are also pairwise distinct this is the lookup of the specification.
\<close>

theorem getPoolInfo_first_plain_signature:
  assumes "list_all plain_signature (map fst (configured_signatures pools))"
  shows "getPoolInfo engine (poolStrings_of pools) coinbaseText =
           Inr (case find (\<lambda>k. occurs_in k coinbaseText) (map fst (configured_signatures pools)) of
                  None \<Rightarrow> None
                | Some k \<Rightarrow> map_option Pool (map_of (rev (configured_signatures pools)) k)) \<and>
         (distinct (map fst (configured_signatures pools)) \<longrightarrow>
            getPoolInfo engine (poolStrings_of pools) coinbaseText =
              Inr (map_option Pool (spec_getPoolInfo pools coinbaseText)))"
  using getPoolInfo_plain [OF assms, of engine coinbaseText]
    spec_getPoolInfo_distinct [of pools coinbaseText]
  by simp

theorem getPoolInfo_first_plain_signature_witness:
  "list_all plain_signature (map fst (configured_signatures
     [\<lparr>poolName = ''SlushPool'', url = ''https://slushpool.com'', searchStrings = [''/slush/'']\<rparr>,
      \<lparr>poolName = ''AntPool'', url = ''https://antpool.com'',
        searchStrings = [''AntPool'', ''Mined by AntPool'']\<rparr>])) \<and>
   distinct (map fst (configured_signatures
     [\<lparr>poolName = ''SlushPool'', url = ''https://slushpool.com'', searchStrings = [''/slush/'']\<rparr>,
      \<lparr>poolName = ''AntPool'', url = ''https://antpool.com'',
        searchStrings = [''AntPool'', ''Mined by AntPool'']\<rparr>])) \<and>
   getPoolInfo (\<lambda>pattern subject. None) (poolStrings_of
     [\<lparr>poolName = ''SlushPool'', url = ''https://slushpool.com'', searchStrings = [''/slush/'']\<rparr>,
      \<lparr>poolName = ''AntPool'', url = ''https://antpool.com'',
        searchStrings = [''AntPool'', ''Mined by AntPool'']\<rparr>]) ''..Mined by AntPool sc..'' =
     Inr (Some (Pool \<lparr>poolName = ''AntPool'', url = ''https://antpool.com''\<rparr>)) \<and>
   getPoolInfo (\<lambda>pattern subject. None) (poolStrings_of
     [\<lparr>poolName = ''SlushPool'', url = ''https://slushpool.com'', searchStrings = [''/slush/'']\<rparr>,
      \<lparr>poolName = ''AntPool'', url = ''https://antpool.com'',
        searchStrings = [''AntPool'', ''Mined by AntPool'']\<rparr>]) ''no signature here'' =
     Inr None"
proof -
  let ?pools = "[\<lparr>poolName = ''SlushPool'', url = ''https://slushpool.com'', searchStrings = [''/slush/'']\<rparr>,
      \<lparr>poolName = ''AntPool'', url = ''https://antpool.com'',
        searchStrings = [''AntPool'', ''Mined by AntPool'']\<rparr>]"
  have h: "list_all plain_signature (map fst (configured_signatures ?pools))"
    by code_simp
  have d: "distinct (map fst (configured_signatures ?pools))"
    by code_simp
  have s1: "spec_getPoolInfo ?pools ''..Mined by AntPool sc..'' =
              Some \<lparr>poolName = ''AntPool'', url = ''https://antpool.com''\<rparr>"
    by code_simp
  have s2: "spec_getPoolInfo ?pools ''no signature here'' = None"
    by code_simp
  have a: "getPoolInfo (\<lambda>pattern subject. None) (poolStrings_of ?pools) ''..Mined by AntPool sc..'' =
             Inr (map_option Pool (spec_getPoolInfo ?pools ''..Mined by AntPool sc..''))"
    using getPoolInfo_first_plain_signature [OF h, of "\<lambda>pattern subject. None" "''..Mined by AntPool sc..''"] d
    by blast
  have b: "getPoolInfo (\<lambda>pattern subject. None) (poolStrings_of ?pools) ''no signature here'' =
             Inr (map_option Pool (spec_getPoolInfo ?pools ''no signature here''))"
    using getPoolInfo_first_plain_signature [OF h, of "\<lambda>pattern subject. None" "''no signature here''"] d
    by blast
  from h d a b show ?thesis
    unfolding s1 s2 by simp
qed

text \<open>
  The claim C6 as stated fails on a signature with a wildcard: \<^verbatim>\<open>pool.com\<close> does not
  occur in the text \<^verbatim>\<open>Mined by pool-com\<close>, so the specification's lookup finds no
  pool, and the code returns the pool, since the pattern \<^verbatim>\<open>pool.com\<close> matches
  \<^verbatim>\<open>pool-com\<close>.
\<close>

theorem getPoolInfo_wildcard_counterexample:
  "getPoolInfo (\<lambda>pattern subject. None)
     (poolStrings_of [\<lparr>poolName = ''Example Pool'', url = ''https://pool.example'',
                       searchStrings = [''pool.com'']\<rparr>])
     ''Mined by pool-com'' =
     Inr (Some (Pool \<lparr>poolName = ''Example Pool'', url = ''https://pool.example''\<rparr>)) \<and>
   spec_getPoolInfo [\<lparr>poolName = ''Example Pool'', url = ''https://pool.example'',
                      searchStrings = [''pool.com'']\<rparr>]
     ''Mined by pool-com'' = None"
  by code_simp

text \<open>
  The signatures the theorem leaves out behave differently. A signature \<^verbatim>\<open>__proto__\<close>
  becomes no key: the lookup finds nothing in a text that contains it, and then visits
  the keys \<^verbatim>\<open>poolName\<close> and \<^verbatim>\<open>url\<close> of the prototype, returning a string where one
  of them occurs. A signature that is an array index is visited before the signatures
  configured ahead of it.
\<close>

lemma getPoolInfo_proto_signature:
  "getPoolInfo (\<lambda>pattern subject. None)
     (poolStrings_of [\<lparr>poolName = ''Example Pool'', url = ''https://pool.example'',
                       searchStrings = [''__proto__'']\<rparr>])
     ''xx__proto__xx'' = Inr None \<and>
   getPoolInfo (\<lambda>pattern subject. None)
     (poolStrings_of [\<lparr>poolName = ''Example Pool'', url = ''https://pool.example'',
                       searchStrings = [''__proto__'']\<rparr>])
     ''a url in the script'' = Inr (Some (Str ''https://pool.example''))"
  by (simp add: getPoolInfo_def poolStrings_of_def empty_object_def obj_assign_def obj_get_def
      for_in_keys_def own_keys_def String_match_def regexp_syntax_char_def
      pattern_char_matches_def)

lemma getPoolInfo_index_signature:
  "getPoolInfo (\<lambda>pattern subject. None)
     (poolStrings_of [\<lparr>poolName = ''First'', url = ''https://first.example'',
                       searchStrings = [''b'']\<rparr>,
                      \<lparr>poolName = ''Second'', url = ''https://second.example'',
                       searchStrings = [''1'']\<rparr>])
     ''b1'' = Inr (Some (Pool \<lparr>poolName = ''Second'', url = ''https://second.example''\<rparr>))"
  by (simp add: getPoolInfo_def poolStrings_of_def empty_object_def obj_assign_def obj_get_def
      for_in_keys_def own_keys_def is_array_index_def digit_char_def dec_value_def
      String_match_def regexp_syntax_char_def pattern_char_matches_def)

subsection \<open>The caches, the handlers and the listing: how each call path ends\<close>

lemma lru_get_hit:
  "lru_peek k c = Some v \<Longrightarrow>
   lru_get k c = (Some v, c\<lparr>lru_entries := (k, v) # filter (\<lambda>e. fst e \<noteq> k) (lru_entries c)\<rparr>)"
  by (simp add: lru_get_def lru_peek_def)

lemma lru_get_miss: "lru_peek k c = None \<Longrightarrow> lru_get k c = (None, c)"
  by (simp add: lru_get_def lru_peek_def)

lemma lru_peek_set: "lru_max c \<noteq> Some 0 \<Longrightarrow> lru_peek k (lru_set k v c) = Some v"
proof (cases "lru_max c")
  case None
  then show ?thesis by (simp add: lru_peek_def lru_set_def lru_trim_def)
next
  case (Some n)
  assume "lru_max c \<noteq> Some 0"
  with Some obtain m where "n = Suc m" by (cases n) auto
  with Some show ?thesis by (simp add: lru_peek_def lru_set_def lru_trim_def)
qed

lemma block_hit:
  assumes "lru_peek hash (blockCache st) = Some b"
  shows "fst (block e nd hash st) =
           Done (b\<lparr>bd_confirmations := bitcoind_height nd - bd_height b + 1\<rparr>) \<and>
         calls (snd (block e nd hash st)) = calls st"
  using assms by (simp add: block_def lru_get_hit Let_def)

lemma block_miss_cache:
  assumes "lru_peek hash (blockCache st) = None"
  shows "case fst (block e nd hash st) of
           Done r \<Rightarrow>
             if bd_confirmations r \<ge> 6
             then blockCache (snd (block e nd hash st)) = lru_set hash r (blockCache st)
             else blockCache (snd (block e nd hash st)) = blockCache st
         | _ \<Rightarrow> blockCache (snd (block e nd hash st)) = blockCache st"
  using assms
  by (auto simp: block_def lru_get_miss Let_def called_def blockCacheConfirmations_def
      split: sum.splits list.splits)

lemma block_miss_getBlock_error:
  assumes "lru_peek hash (blockCache st) = None" "node_getBlock nd hash = Inl err"
  shows "fst (block e nd hash st) = (if not_found_code err then HandleErrors None else HandleErrors (Some err))"
  using assms by (simp add: block_def lru_get_miss Let_def)

lemma block_miss_header_error:
  assumes "lru_peek hash (blockCache st) = None" "node_getBlock nd hash = Inr blk"
    "bitcoind_getBlockHeader nd hash = Inl err"
  shows "fst (block e nd hash st) = HandleErrors (Some err)"
  using assms by (simp add: block_def lru_get_miss Let_def)

lemma block_miss_transaction_error:
  assumes "lru_peek hash (blockCache st) = None" "node_getBlock nd hash = Inr blk"
    "bitcoind_getBlockHeader nd hash = Inr info" "blk_transactions blk = tx0 # txs"
    "getDetailedTransaction nd (Some (tx_hash tx0)) = Inl err"
    "transformBlock e (poolStrings st) blk info None = Inr r"
  shows "fst (block e nd hash st) = Done r \<and> bd_minedBy r = None"
proof -
  have "bd_minedBy r = None"
    using assms(4,6) by (auto simp: transformBlock_def Let_def split: sum.splits)
  then show ?thesis
    using assms by (simp add: block_def lru_get_miss Let_def called_def)
qed

lemma rawBlock_error:
  assumes "node_getRawBlock nd blockHash = Inl err"
  shows "fst (rawBlock nd blockHash st) = (if not_found_code err then HandleErrors None else HandleErrors (Some err))"
  using assms by (simp add: rawBlock_def Let_def)

lemma summary_rawblock_error:
  assumes "lru_peek hash (blockSummaryCache st) = None" "bitcoind_getRawBlock nd hash = Inl err"
  shows "fst (getBlockSummary e nd hash mt st) = Failed err"
  using assms by (simp add: getBlockSummary_def lru_get_miss Let_def)

lemma summary_header_error:
  assumes "lru_peek hash (blockSummaryCache st) = None" "bitcoind_getRawBlock nd hash = Inr buf"
    "client_getBlock nd hash = Inr tx" "bitcoind_getBlockHeader nd hash = Inl err"
  shows "fst (getBlockSummary e nd hash mt st) = Failed err"
  using assms by (simp add: getBlockSummary_def lru_get_miss Let_def)

lemma summary_miss_cache:
  assumes "lru_peek hash (blockSummaryCache st) = None"
  shows "case fst (getBlockSummary e nd hash mt st) of
           Result s \<Rightarrow>
             if bitcoind_height nd - bs_height s + 1 \<ge> 6
             then blockSummaryCache (snd (getBlockSummary e nd hash mt st)) =
                    lru_set hash s (blockSummaryCache st)
             else blockSummaryCache (snd (getBlockSummary e nd hash mt st)) = blockSummaryCache st
         | _ \<Rightarrow> blockSummaryCache (snd (getBlockSummary e nd hash mt st)) = blockSummaryCache st"
  using assms
  by (auto simp: getBlockSummary_def lru_get_miss Let_def called_def blockCacheConfirmations_def
      finish_def split: sum.splits list.splits option.splits)

lemma mapSeries_first_failure:
  assumes "mapSeries e nd mt hs1 st = (Result rs, st')"
    "fst (getBlockSummary e nd h mt st') = Failed err"
  shows "fst (mapSeries e nd mt (hs1 @ h # hs2) st) = Failed err"
  using assms
proof (induction hs1 arbitrary: st rs)
  case Nil
  then show ?case by (cases "getBlockSummary e nd h mt st'") (simp split: callback.splits)
next
  case (Cons a hs1)
  obtain out s1 where g: "getBlockSummary e nd a mt st = (out, s1)" by (cases "getBlockSummary e nd a mt st")
  obtain out2 s2 where m: "mapSeries e nd mt hs1 s1 = (out2, s2)" by (cases "mapSeries e nd mt hs1 s1")
  from Cons.prems(1) g m obtain r rs' where o: "out = Result r" "out2 = Result rs'" "s2 = st'"
    by (auto split: callback.splits)
  have "fst (mapSeries e nd mt (hs1 @ h # hs2) s1) = Failed err"
    using Cons.IH [of s1 rs'] m o Cons.prems(2) by simp
  then show ?case
    using g o by (cases "mapSeries e nd mt (hs1 @ h # hs2) s1") (auto split: callback.splits)
qed

lemma mapSeries_length:
  "mapSeries e nd mt hs st = (Result rs, st') \<Longrightarrow> length rs = length hs"
proof (induction hs arbitrary: st rs st')
  case Nil
  then show ?case by simp
next
  case (Cons a hs)
  obtain out s1 where g: "getBlockSummary e nd a mt st = (out, s1)" by (cases "getBlockSummary e nd a mt st")
  obtain out2 s2 where m: "mapSeries e nd mt hs s1 = (out2, s2)" by (cases "mapSeries e nd mt hs s1")
  from Cons.prems g m obtain r rs' where o: "out = Result r" "out2 = Result rs'" "rs = r # rs'"
    by (auto split: callback.splits)
  with Cons.IH [of s1 rs' s2] m show ?case by simp
qed

lemma list_index_error:
  assumes "list_prepare e req = Inr v"
    "bitcoind_getBlockHashesByTimestamp nd (lv_lte v) (lv_gte v) = Inl err"
  shows "fst (list e nd req st) = HandleErrors (Some err)"
  using assms by (simp add: list_def Let_def)

lemma list_summary_failure:
  assumes "list_prepare e req = Inr v"
    "bitcoind_getBlockHashesByTimestamp nd (lv_lte v) (lv_gte v) = Inr hashes"
    "fst (mapSeries e nd (lv_lte v) (snd (list_retain (lv_limit v) hashes))
            (called (GetBlockHashesByTimestamp (lv_lte v) (lv_gte v)) st)) = Failed err"
  shows "fst (list e nd req st) = HandleErrors (Some err)"
  using assms
  by (cases "list_retain (lv_limit v) hashes";
      cases "mapSeries e nd (lv_lte v) (snd (list_retain (lv_limit v) hashes))
            (called (GetBlockHashesByTimestamp (lv_lte v) (lv_gte v)) st)")
     (simp add: list_def Let_def)

lemma list_done:
  assumes "list e nd req st = (Done data, st')"
  shows "\<exists>v hashes blocks.
           list_prepare e req = Inr v \<and>
           bitcoind_getBlockHashesByTimestamp nd (lv_lte v) (lv_gte v) = Inr hashes \<and>
           mapSeries e nd (lv_lte v) (snd (list_retain (lv_limit v) hashes))
             (called (GetBlockHashesByTimestamp (lv_lte v) (lv_gte v)) st) = (Result blocks, st') \<and>
           lst_blocks data = sort_blocks blocks \<and>
           pg_more (lst_pagination data) = fst (list_retain (lv_limit v) hashes) \<and>
           pg_moreTs (lst_pagination data) =
             (if fst (list_retain (lv_limit v) hashes) then Some (lv_lte v) else None)"
  using assms
  by (auto simp: list_def Let_def split: sum.splits prod.splits callback.splits)

lemma list_format_error:
  assumes "blockDate req = Some d" "d \<noteq> []" "\<not> datePattern_test d"
  shows "list e nd req st = (HandleErrors (Some (Err None ''Please use yyyy-mm-dd format'')), st)"
  using assms by (simp add: list_def list_prepare_def Let_def)

lemma list_prepare_accepts:
  assumes "blockDate req = Some d" "datePattern_test d"
  shows "\<exists>v. list_prepare e req = Inr v \<and> lv_dateStr v = d"
proof -
  have "d \<noteq> []" using assms(2) by auto
  then show ?thesis using assms by (simp add: list_prepare_def Let_def)
qed

lemma getBlockSummary_calls:
  "\<exists>cs. calls (snd (getBlockSummary e nd h mt st)) = calls st @ cs"
  by (auto simp: getBlockSummary_def Let_def called_def lru_get_def
      split: option.splits sum.splits list.splits)

lemma mapSeries_calls:
  "\<exists>cs. calls (snd (mapSeries e nd mt hs st)) = calls st @ cs"
proof (induction hs arbitrary: st)
  case Nil
  then show ?case by simp
next
  case (Cons a hs)
  obtain out s1 where g: "getBlockSummary e nd a mt st = (out, s1)" by (cases "getBlockSummary e nd a mt st")
  obtain cs1 where c1: "calls s1 = calls st @ cs1"
    using getBlockSummary_calls [of e nd a mt st] g by auto
  obtain out2 s2 where m: "mapSeries e nd mt hs s1 = (out2, s2)" by (cases "mapSeries e nd mt hs s1")
  obtain cs2 where c2: "calls s2 = calls s1 @ cs2"
    using Cons.IH [of s1] m by auto
  show ?case
    using g m c1 c2 by (cases out; cases out2) auto
qed

lemma list_calls_node:
  assumes "list_prepare e req = Inr v"
  shows "\<exists>cs. calls (snd (list e nd req st)) =
           calls st @ GetBlockHashesByTimestamp (lv_lte v) (lv_gte v) # cs"
proof (cases "bitcoind_getBlockHashesByTimestamp nd (lv_lte v) (lv_gte v)")
  case (Inl err)
  with assms show ?thesis by (simp add: list_def Let_def called_def)
next
  case (Inr hashes)
  let ?st1 = "called (GetBlockHashesByTimestamp (lv_lte v) (lv_gte v)) st"
  let ?hs = "snd (list_retain (lv_limit v) hashes)"
  obtain cs where cs: "calls (snd (mapSeries e nd (lv_lte v) ?hs ?st1)) = calls ?st1 @ cs"
    using mapSeries_calls by blast
  have "calls (snd (list e nd req st)) = calls (snd (mapSeries e nd (lv_lte v) ?hs ?st1))"
    using assms Inr
    by (cases "list_retain (lv_limit v) hashes"; cases "mapSeries e nd (lv_lte v) ?hs ?st1")
       (auto simp: list_def Let_def split: callback.splits)
  with cs show ?thesis by (simp add: called_def)
qed

subsection \<open>Evaluating the examples\<close>

lemmas example_defs =
  example_node_def example_env_def example_state_def example_pools_def example_known_def
  example_height_def example_time_def example_raw_def hashA_def hashB_def hashC_def hashX_def
  not_found_def example_trx_def example_block_def example_detail_def example_summary_def
  BlockController_def LRU_def option_or_def DEFAULT_BLOCKSUMMARY_CACHE_SIZE_def
  DEFAULT_BLOCK_CACHE_SIZE_def poolStrings_of_def empty_object_def obj_assign_def

lemmas run_defs =
  lru_get_def lru_peek_def lru_set_def lru_trim_def called_def not_found_code_def
  getBlockReward_def BN_shrn_def minerAddress_def guess_loop_def guess_step_def
  getPoolInfo_def for_in_keys_def own_keys_def obj_get_def is_array_index_def digit_char_def String_match_def
  regexp_syntax_char_def pattern_char_matches_def finish_def blockCacheConfirmations_def
  transformBlock_def normalizePrevHash_def nat_toString.simps digit_of_def char_of_def
  bit_Suc_0_iff num_gt_def Let_def

lemmas list_defs =
  list_def list_prepare_def list_retain_def slice0_def sort_blocks_def formatTimestamp_def
  num_toString_def datePattern_here_def num_truthy_def new_Date_def dec_value_def
  BLOCK_LIMIT_def

subsection \<open>The confirmation gate of the detail cache\<close>

text \<open>
  Claim C1. In \<^verbatim>\<open>block\<close>, on a hit of the detail cache the record handed on is the
  cached one with \<^verbatim>\<open>confirmations\<close> recomputed as tip height - height + 1 against the
  tip of this request. On a miss the cache is written only when the request ends with a
  block of at least 6 confirmations, and then by a \<open>set\<close> of that block; with fewer
  confirmations (5, say) the cache is left as it was and the hash is still a miss
  afterwards. A block stored with 6 or more confirmations is found by the next request
  for the hash, which again recomputes \<^verbatim>\<open>confirmations\<close> against its own tip. The
  summary cache has the same gate, on tip height - height + 1 of the summary built.
\<close>

theorem block_cache_gate:
  "(lru_peek hash (blockCache st) = Some b \<longrightarrow>
      fst (block e nd hash st) =
        Done (b\<lparr>bd_confirmations := bitcoind_height nd - bd_height b + 1\<rparr>)) \<and>
   (lru_peek hash (blockCache st) = None \<longrightarrow>
      (case fst (block e nd hash st) of
         Done r \<Rightarrow>
           if bd_confirmations r \<ge> 6
           then blockCache (snd (block e nd hash st)) = lru_set hash r (blockCache st)
           else blockCache (snd (block e nd hash st)) = blockCache st \<and>
                lru_peek hash (blockCache (snd (block e nd hash st))) = None
       | _ \<Rightarrow> blockCache (snd (block e nd hash st)) = blockCache st)) \<and>
   (lru_peek hash (blockCache st) = None \<and> lru_max (blockCache st) \<noteq> Some 0 \<and>
    fst (block e nd hash st) = Done r \<and> bd_confirmations r \<ge> 6 \<longrightarrow>
      fst (block e nd' hash (snd (block e nd hash st))) =
        Done (r\<lparr>bd_confirmations := bitcoind_height nd' - bd_height r + 1\<rparr>)) \<and>
   (lru_peek hash (blockSummaryCache st) = None \<longrightarrow>
      (case fst (getBlockSummary e nd hash moreTimestamp st) of
         Result s \<Rightarrow>
           if bitcoind_height nd - bs_height s + 1 \<ge> 6
           then blockSummaryCache (snd (getBlockSummary e nd hash moreTimestamp st)) =
                  lru_set hash s (blockSummaryCache st)
           else blockSummaryCache (snd (getBlockSummary e nd hash moreTimestamp st)) =
                  blockSummaryCache st
       | _ \<Rightarrow> blockSummaryCache (snd (getBlockSummary e nd hash moreTimestamp st)) =
               blockSummaryCache st))"
proof (intro conjI impI)
  assume "lru_peek hash (blockCache st) = Some b"
  then show "fst (block e nd hash st) =
        Done (b\<lparr>bd_confirmations := bitcoind_height nd - bd_height b + 1\<rparr>)"
    using block_hit by blast
next
  assume miss: "lru_peek hash (blockCache st) = None"
  show "case fst (block e nd hash st) of
         Done r \<Rightarrow>
           if bd_confirmations r \<ge> 6
           then blockCache (snd (block e nd hash st)) = lru_set hash r (blockCache st)
           else blockCache (snd (block e nd hash st)) = blockCache st \<and>
                lru_peek hash (blockCache (snd (block e nd hash st))) = None
       | _ \<Rightarrow> blockCache (snd (block e nd hash st)) = blockCache st"
    using block_miss_cache [OF miss, of e nd] miss
    by (auto split: outcome.splits if_splits)
next
  assume a: "lru_peek hash (blockCache st) = None \<and> lru_max (blockCache st) \<noteq> Some 0 \<and>
    fst (block e nd hash st) = Done r \<and> bd_confirmations r \<ge> 6"
  then have "blockCache (snd (block e nd hash st)) = lru_set hash r (blockCache st)"
    using block_miss_cache [of hash st e nd] by simp
  then have "lru_peek hash (blockCache (snd (block e nd hash st))) = Some r"
    using a by (simp add: lru_peek_set)
  then show "fst (block e nd' hash (snd (block e nd hash st))) =
        Done (r\<lparr>bd_confirmations := bitcoind_height nd' - bd_height r + 1\<rparr>)"
    using block_hit by blast
next
  assume "lru_peek hash (blockSummaryCache st) = None"
  then show "case fst (getBlockSummary e nd hash moreTimestamp st) of
         Result s \<Rightarrow>
           if bitcoind_height nd - bs_height s + 1 \<ge> 6
           then blockSummaryCache (snd (getBlockSummary e nd hash moreTimestamp st)) =
                  lru_set hash s (blockSummaryCache st)
           else blockSummaryCache (snd (getBlockSummary e nd hash moreTimestamp st)) =
                  blockSummaryCache st
       | _ \<Rightarrow> blockSummaryCache (snd (getBlockSummary e nd hash moreTimestamp st)) =
               blockSummaryCache st"
    by (rule summary_miss_cache)
qed

lemma example_summary_C:
  "fst (getBlockSummary example_env (example_node 2106404 []) hashC None example_state) =
     Result (example_summary hashC)"
  by (simp add: getBlockSummary_def example_defs run_defs)

lemma example_block_C:
  "fst (block example_env (example_node 2106404 []) hashC example_state) = Done (example_detail hashC 5)"
  by (simp add: block_def example_defs run_defs)

lemma example_block_B:
  "fst (block example_env (example_node 2106404 []) hashB example_state) = Done (example_detail hashB 6)"
  by (simp add: block_def example_defs run_defs)

theorem block_cache_gate_witness:
  "lru_peek hashC (blockCache example_state) = None \<and>
   fst (block example_env (example_node 2106404 []) hashC example_state) =
     Done (example_detail hashC 5) \<and>
   lru_peek hashC (blockCache (snd (block example_env (example_node 2106404 []) hashC example_state))) = None \<and>
   fst (block example_env (example_node 2106404 []) hashB example_state) =
     Done (example_detail hashB 6) \<and>
   lru_peek hashB (blockCache (snd (block example_env (example_node 2106404 []) hashB example_state))) =
     Some (example_detail hashB 6) \<and>
   fst (block example_env (example_node 2106410 []) hashB
          (snd (block example_env (example_node 2106404 []) hashB example_state))) =
     Done (example_detail hashB 12) \<and>
   blockSummaryCache
     (snd (getBlockSummary example_env (example_node 2106404 []) hashC None example_state)) =
     blockSummaryCache example_state"
proof -
  have mS: "lru_peek hashC (blockSummaryCache example_state) = None"
    by (simp add: example_defs lru_peek_def)
  have hS: "bitcoind_height (example_node 2106404 []) - bs_height (example_summary hashC) + 1 = 5"
    by (simp add: example_node_def example_summary_def example_height_def hashA_def hashB_def hashC_def)
  have sC: "blockSummaryCache
     (snd (getBlockSummary example_env (example_node 2106404 []) hashC None example_state)) =
     blockSummaryCache example_state"
    using block_cache_gate [where hash = hashC and st = example_state and e = example_env
        and nd = "example_node 2106404 []" and moreTimestamp = None] mS example_summary_C hS
    by simp
  have mC: "lru_peek hashC (blockCache example_state) = None"
    by (simp add: example_defs lru_peek_def)
  have mB: "lru_peek hashB (blockCache example_state) = None"
    by (simp add: example_defs lru_peek_def)
  have mx: "lru_max (blockCache example_state) \<noteq> Some 0"
    by (simp add: example_defs)
  have c5: "bd_confirmations (example_detail hashC 5) = 5" "bd_confirmations (example_detail hashB 6) = 6"
    by (simp_all add: example_detail_def)
  have tip: "bitcoind_height (example_node 2106410 []) = 2106410"
    by (simp add: example_node_def)
  have upd: "(example_detail hashB 6)\<lparr>bd_confirmations := 2106410 - bd_height (example_detail hashB 6) + 1\<rparr> =
               example_detail hashB 12"
    by (simp add: example_detail_def example_height_def hashA_def hashB_def)
  have nC: "lru_peek hashC (blockCache (snd (block example_env (example_node 2106404 []) hashC example_state))) = None"
    using block_cache_gate [where hash = hashC and st = example_state and e = example_env
        and nd = "example_node 2106404 []"] mC example_block_C c5
    by simp
  have sB: "blockCache (snd (block example_env (example_node 2106404 []) hashB example_state)) =
              lru_set hashB (example_detail hashB 6) (blockCache example_state)"
    using block_cache_gate [where hash = hashB and st = example_state and e = example_env
        and nd = "example_node 2106404 []"] mB example_block_B c5
    by simp
  have pB: "lru_peek hashB (blockCache (snd (block example_env (example_node 2106404 []) hashB example_state))) =
     Some (example_detail hashB 6)"
    unfolding sB using mx by (rule lru_peek_set)
  have rB: "fst (block example_env (example_node 2106410 []) hashB
          (snd (block example_env (example_node 2106404 []) hashB example_state))) =
     Done (example_detail hashB 12)"
    using block_cache_gate [where hash = hashB and e = example_env
        and st = "snd (block example_env (example_node 2106404 []) hashB example_state)"
        and nd = "example_node 2106410 []" and b = "example_detail hashB 6"] pB tip upd
    by simp
  from mC example_block_C nC example_block_B pB rB sC show ?thesis by blast
qed


subsection \<open>Not-found codes\<close>

text \<open>
  Claim C5 (as amended). In the block lookup (\<^verbatim>\<open>block\<close>, the call \<^verbatim>\<open>node.getBlock\<close>)
  and in the raw-block lookup (\<^verbatim>\<open>rawBlock\<close>, the call \<^verbatim>\<open>node.getRawBlock\<close>) an error
  with code -5 or -8 is answered as not found, \<^verbatim>\<open>handleErrors(null, res)\<close>. The
  \<^verbatim>\<open>getRawBlock\<close> call of the summary builder makes no such mapping: it passes every
  error, also one with code -5 or -8, to its callback, and the listing ends with that
  error.
\<close>

theorem not_found_mapping:
  "(lru_peek hash (blockCache st) = None \<and> node_getBlock nd hash = Inl err \<and>
    (err_code err = Some (- 5) \<or> err_code err = Some (- 8)) \<longrightarrow>
      fst (block e nd hash st) = HandleErrors None) \<and>
   (node_getRawBlock nd hash = Inl err \<and>
    (err_code err = Some (- 5) \<or> err_code err = Some (- 8)) \<longrightarrow>
      fst (rawBlock nd hash st) = HandleErrors None) \<and>
   (lru_peek hash (blockSummaryCache st) = None \<and> bitcoind_getRawBlock nd hash = Inl err \<longrightarrow>
      fst (getBlockSummary e nd hash moreTimestamp st) = Failed err)"
proof (intro conjI impI)
  assume "lru_peek hash (blockCache st) = None \<and> node_getBlock nd hash = Inl err \<and>
    (err_code err = Some (- 5) \<or> err_code err = Some (- 8))"
  then show "fst (block e nd hash st) = HandleErrors None"
    using block_miss_getBlock_error [of hash st nd err e] by (simp add: not_found_code_def)
next
  assume "node_getRawBlock nd hash = Inl err \<and>
    (err_code err = Some (- 5) \<or> err_code err = Some (- 8))"
  then show "fst (rawBlock nd hash st) = HandleErrors None"
    using rawBlock_error [of nd hash err st] by (simp add: not_found_code_def)
next
  assume "lru_peek hash (blockSummaryCache st) = None \<and> bitcoind_getRawBlock nd hash = Inl err"
  then show "fst (getBlockSummary e nd hash moreTimestamp st) = Failed err"
    using summary_rawblock_error by blast
qed

theorem not_found_mapping_witness:
  "fst (block example_env (example_node 2106404 []) hashX example_state) = HandleErrors None \<and>
   fst (rawBlock ((example_node 2106404 [])
          \<lparr>node_getRawBlock := (\<lambda>h. Inl (Err (Some (- 8)) ''Block height out of range''))\<rparr>)
          hashX example_state) = HandleErrors None \<and>
   fst (getBlockSummary example_env (example_node 2106404 []) hashX (Some 1704153600) example_state) =
     Failed (Err (Some (- 5)) ''Block not found'')"
proof -
  let ?nd = "example_node 2106404 []"
  let ?nd8 = "?nd\<lparr>node_getRawBlock := (\<lambda>h. Inl (Err (Some (- 8)) ''Block height out of range''))\<rparr>"
  have m: "lru_peek hashX (blockCache example_state) = None"
          "lru_peek hashX (blockSummaryCache example_state) = None"
    by (simp_all add: example_defs lru_peek_def)
  have g: "node_getBlock ?nd hashX = Inl (Err (Some (- 5)) ''Block not found'')"
          "bitcoind_getRawBlock ?nd hashX = Inl (Err (Some (- 5)) ''Block not found'')"
    by (simp_all add: example_defs)
  have r: "node_getRawBlock ?nd8 hashX = Inl (Err (Some (- 8)) ''Block height out of range'')"
    by simp
  show ?thesis
    using not_found_mapping [where hash = hashX and st = example_state and nd = ?nd
        and err = "Err (Some (- 5)) ''Block not found''" and e = example_env
        and moreTimestamp = "Some 1704153600"]
      not_found_mapping [where hash = hashX and st = example_state and nd = ?nd8
        and err = "Err (Some (- 8)) ''Block height out of range''"]
      m g r
    by simp
qed

text \<open>
  The claim C5 as stated fails in a listing: when the timestamp index names a hash for
  which \<^verbatim>\<open>getRawBlock\<close> answers with code -5, the listing ends with that error, not
  with an empty or not-found result.
\<close>

theorem listing_not_found_counterexample:
  "fst (list example_env (example_node 2106404 [hashX])
          \<lparr>blockDate = Some ''2024-01-01'', startTimestamp = None, limit = None\<rparr> example_state) =
     HandleErrors (Some (Err (Some (- 5)) ''Block not found''))"
  by (simp add: getBlockSummary_def list_defs example_defs run_defs)

subsection \<open>Errors of the collaborators\<close>

lemma example_prepare:
  "list_prepare example_env \<lparr>blockDate = Some ''2024-01-01'', startTimestamp = None, limit = lm\<rparr> =
     Inr \<lparr>lv_dateStr = ''2024-01-01'', lv_isToday = False, lv_gte = Some 1704067200,
          lv_lte = Some 1704153600, lv_prev = ''2023-12-31'', lv_next = Some ''2024-01-02'',
          lv_limit = (case lm of None \<Rightarrow> Some 200
                      | Some l \<Rightarrow> if l = [] then Some 200 else parseInt example_env l)\<rparr>"
  by (simp add: list_prepare_def formatTimestamp_def num_toString_def datePattern_here_def
      num_truthy_def new_Date_def BLOCK_LIMIT_def example_env_def nat_toString.simps digit_of_def
      char_of_def bit_Suc_0_iff digit_char_def Let_def split: option.splits)

text \<open>
  Claim C9 (as amended). An error of \<^verbatim>\<open>node.getBlock\<close> or \<^verbatim>\<open>node.getRawBlock\<close> other
  than the not-found codes, and every error of \<^verbatim>\<open>getBlockHeader\<close> and of
  \<^verbatim>\<open>getBlockHashesByTimestamp\<close>, is handed unchanged to \<^verbatim>\<open>handleErrors\<close> and ends the
  request. In a listing the first hash whose summary fails (its raw block or its header
  cannot be fetched) ends the whole listing with that error: no blocks are returned,
  also not the summaries already built. An error of \<^verbatim>\<open>getDetailedTransaction\<close> in the
  block lookup is not handed on: the callback does not read it, \<^verbatim>\<open>transformBlock\<close>
  tests its \<^verbatim>\<open>transaction\<close> argument, and the block is returned without a miner
  address.
\<close>

theorem collaborator_errors_abort:
  "(lru_peek hash (blockCache st) = None \<and> node_getBlock nd hash = Inl err \<and>
    err_code err \<noteq> Some (- 5) \<and> err_code err \<noteq> Some (- 8) \<longrightarrow>
      fst (block e nd hash st) = HandleErrors (Some err)) \<and>
   (lru_peek hash (blockCache st) = None \<and> node_getBlock nd hash = Inr blk \<and>
    bitcoind_getBlockHeader nd hash = Inl err \<longrightarrow>
      fst (block e nd hash st) = HandleErrors (Some err)) \<and>
   (node_getRawBlock nd hash = Inl err \<and>
    err_code err \<noteq> Some (- 5) \<and> err_code err \<noteq> Some (- 8) \<longrightarrow>
      fst (rawBlock nd hash st) = HandleErrors (Some err)) \<and>
   (list_prepare e req = Inr v \<and>
    bitcoind_getBlockHashesByTimestamp nd (lv_lte v) (lv_gte v) = Inl err \<longrightarrow>
      fst (list e nd req st) = HandleErrors (Some err)) \<and>
   (list_prepare e req = Inr v \<and>
    bitcoind_getBlockHashesByTimestamp nd (lv_lte v) (lv_gte v) = Inr hashes \<and>
    snd (list_retain (lv_limit v) hashes) = hs1 @ h # hs2 \<and>
    mapSeries e nd (lv_lte v) hs1 (called (GetBlockHashesByTimestamp (lv_lte v) (lv_gte v)) st) =
      (Result rs, st1) \<and>
    lru_peek h (blockSummaryCache st1) = None \<and>
    (bitcoind_getRawBlock nd h = Inl err \<or>
     (\<exists>buf tx. bitcoind_getRawBlock nd h = Inr buf \<and> client_getBlock nd h = Inr tx \<and>
                bitcoind_getBlockHeader nd h = Inl err)) \<longrightarrow>
      fst (list e nd req st) = HandleErrors (Some err)) \<and>
   (lru_peek hash (blockCache st) = None \<and> node_getBlock nd hash = Inr blk \<and>
    bitcoind_getBlockHeader nd hash = Inr info \<and> blk_transactions blk = tx0 # txs \<and>
    getDetailedTransaction nd (Some (tx_hash tx0)) = Inl err \<and>
    transformBlock e (poolStrings st) blk info None = Inr r \<longrightarrow>
      fst (block e nd hash st) = Done r \<and> bd_minedBy r = None)"
proof (intro conjI impI)
  assume "lru_peek hash (blockCache st) = None \<and> node_getBlock nd hash = Inl err \<and>
    err_code err \<noteq> Some (- 5) \<and> err_code err \<noteq> Some (- 8)"
  then show "fst (block e nd hash st) = HandleErrors (Some err)"
    using block_miss_getBlock_error [of hash st nd err e] by (simp add: not_found_code_def)
next
  assume "lru_peek hash (blockCache st) = None \<and> node_getBlock nd hash = Inr blk \<and>
    bitcoind_getBlockHeader nd hash = Inl err"
  then show "fst (block e nd hash st) = HandleErrors (Some err)"
    using block_miss_header_error by blast
next
  assume "node_getRawBlock nd hash = Inl err \<and>
    err_code err \<noteq> Some (- 5) \<and> err_code err \<noteq> Some (- 8)"
  then show "fst (rawBlock nd hash st) = HandleErrors (Some err)"
    using rawBlock_error [of nd hash err st] by (simp add: not_found_code_def)
next
  assume "list_prepare e req = Inr v \<and>
    bitcoind_getBlockHashesByTimestamp nd (lv_lte v) (lv_gte v) = Inl err"
  then show "fst (list e nd req st) = HandleErrors (Some err)"
    using list_index_error by blast
next
  assume a: "list_prepare e req = Inr v \<and>
    bitcoind_getBlockHashesByTimestamp nd (lv_lte v) (lv_gte v) = Inr hashes \<and>
    snd (list_retain (lv_limit v) hashes) = hs1 @ h # hs2 \<and>
    mapSeries e nd (lv_lte v) hs1 (called (GetBlockHashesByTimestamp (lv_lte v) (lv_gte v)) st) =
      (Result rs, st1) \<and>
    lru_peek h (blockSummaryCache st1) = None \<and>
    (bitcoind_getRawBlock nd h = Inl err \<or>
     (\<exists>buf tx. bitcoind_getRawBlock nd h = Inr buf \<and> client_getBlock nd h = Inr tx \<and>
                bitcoind_getBlockHeader nd h = Inl err))"
  then have "fst (getBlockSummary e nd h (lv_lte v) st1) = Failed err"
    using summary_rawblock_error [of h st1 nd err e "lv_lte v"]
      summary_header_error [of h st1 nd _ _ err e "lv_lte v"]
    by blast
  with a have "fst (mapSeries e nd (lv_lte v) (hs1 @ h # hs2)
                  (called (GetBlockHashesByTimestamp (lv_lte v) (lv_gte v)) st)) = Failed err"
    using mapSeries_first_failure by blast
  with a show "fst (list e nd req st) = HandleErrors (Some err)"
    using list_summary_failure [of e req v nd hashes st err] by simp
next
  assume a: "lru_peek hash (blockCache st) = None \<and> node_getBlock nd hash = Inr blk \<and>
    bitcoind_getBlockHeader nd hash = Inr info \<and> blk_transactions blk = tx0 # txs \<and>
    getDetailedTransaction nd (Some (tx_hash tx0)) = Inl err \<and>
    transformBlock e (poolStrings st) blk info None = Inr r"
  then show "fst (block e nd hash st) = Done r" "bd_minedBy r = None"
    using block_miss_transaction_error [of hash st nd blk info tx0 txs err e r] by simp_all
qed

theorem collaborator_errors_abort_witness:
  "fst (block example_env ((example_node 2106404 [])\<lparr>node_getBlock := (\<lambda>h. Inl refused)\<rparr>)
          hashA example_state) = HandleErrors (Some refused) \<and>
   fst (block example_env ((example_node 2106404 [])\<lparr>bitcoind_getBlockHeader := (\<lambda>h. Inl refused)\<rparr>)
          hashA example_state) = HandleErrors (Some refused) \<and>
   fst (rawBlock ((example_node 2106404 [])\<lparr>node_getRawBlock := (\<lambda>h. Inl refused)\<rparr>)
          hashA example_state) = HandleErrors (Some refused) \<and>
   fst (list example_env
          ((example_node 2106404 [])\<lparr>bitcoind_getBlockHashesByTimestamp := (\<lambda>high low. Inl refused)\<rparr>)
          \<lparr>blockDate = Some ''2024-01-01'', startTimestamp = None, limit = None\<rparr> example_state) =
     HandleErrors (Some refused) \<and>
   fst (list example_env
          ((example_node 2106404 [hashA, hashB, hashC])\<lparr>bitcoind_getRawBlock := (\<lambda>h. Inl refused)\<rparr>)
          \<lparr>blockDate = Some ''2024-01-01'', startTimestamp = None, limit = None\<rparr> example_state) =
     HandleErrors (Some refused) \<and>
   fst (block example_env ((example_node 2106404 [])\<lparr>getDetailedTransaction := (\<lambda>t. Inl refused)\<rparr>)
          hashA example_state) = Done ((example_detail hashA 7)\<lparr>bd_minedBy := None\<rparr>)"
proof -
  let ?nd = "example_node 2106404 []"
  let ?req = "\<lparr>blockDate = Some ''2024-01-01'', startTimestamp = None, limit = None\<rparr>"
  let ?v = "\<lparr>lv_dateStr = ''2024-01-01'', lv_isToday = False, lv_gte = Some 1704067200,
          lv_lte = Some 1704153600, lv_prev = ''2023-12-31'', lv_next = Some ''2024-01-02'',
          lv_limit = Some 200\<rparr>"
  have code: "err_code refused \<noteq> Some (- 5) \<and> err_code refused \<noteq> Some (- 8)"
    by (simp add: refused_def)
  have m: "lru_peek hashA (blockCache example_state) = None"
          "lru_peek hashC (blockSummaryCache example_state) = None"
    by (simp_all add: example_defs lru_peek_def)
  have prep: "list_prepare example_env ?req = Inr ?v"
    using example_prepare [of None] by simp
  have c1: "fst (block example_env (?nd\<lparr>node_getBlock := (\<lambda>h. Inl refused)\<rparr>) hashA example_state) =
              HandleErrors (Some refused)"
    using collaborator_errors_abort [where hash = hashA and st = example_state and err = refused
        and nd = "?nd\<lparr>node_getBlock := (\<lambda>h. Inl refused)\<rparr>" and e = example_env] m code
    by simp
  have c2: "fst (block example_env (?nd\<lparr>bitcoind_getBlockHeader := (\<lambda>h. Inl refused)\<rparr>) hashA example_state) =
              HandleErrors (Some refused)"
    using collaborator_errors_abort [where hash = hashA and st = example_state and err = refused
        and nd = "?nd\<lparr>bitcoind_getBlockHeader := (\<lambda>h. Inl refused)\<rparr>" and e = example_env
        and blk = "example_block hashA"] m
    by (simp add: example_node_def example_known_def)
  have c3: "fst (rawBlock (?nd\<lparr>node_getRawBlock := (\<lambda>h. Inl refused)\<rparr>) hashA example_state) =
              HandleErrors (Some refused)"
    using collaborator_errors_abort [where hash = hashA and st = example_state and err = refused
        and nd = "?nd\<lparr>node_getRawBlock := (\<lambda>h. Inl refused)\<rparr>"] code
    by simp
  have c4: "fst (list example_env (?nd\<lparr>bitcoind_getBlockHashesByTimestamp := (\<lambda>high low. Inl refused)\<rparr>)
                  ?req example_state) = HandleErrors (Some refused)"
    using collaborator_errors_abort [where e = example_env and req = ?req and v = ?v and err = refused
        and nd = "?nd\<lparr>bitcoind_getBlockHashesByTimestamp := (\<lambda>high low. Inl refused)\<rparr>"
        and st = example_state] prep
    by simp
  let ?nd5 = "(example_node 2106404 [hashA, hashB, hashC])\<lparr>bitcoind_getRawBlock := (\<lambda>h. Inl refused)\<rparr>"
  have retain: "snd (list_retain (Some 200) [hashA, hashB, hashC]) = [] @ hashC # [hashB, hashA]"
    by (simp add: list_retain_def)
  have c5: "fst (list example_env ?nd5 ?req example_state) = HandleErrors (Some refused)"
    using collaborator_errors_abort [where e = example_env and req = ?req and v = ?v and err = refused
        and nd = ?nd5 and st = example_state and hashes = "[hashA, hashB, hashC]" and ?hs1.0 = "[]"
        and h = hashC and ?hs2.0 = "[hashB, hashA]" and rs = "[]"
        and ?st1.0 = "called (GetBlockHashesByTimestamp (Some 1704153600) (Some 1704067200)) example_state"]
      prep retain m
    by (simp add: example_node_def called_def)
  let ?nd6 = "?nd\<lparr>getDetailedTransaction := (\<lambda>t. Inl refused)\<rparr>"
  have t: "transformBlock example_env (poolStrings example_state) (example_block hashA)
             \<lparr>info_height = 2106398, info_confirmations = 7, info_chainWork = ''0100'',
              info_nextHash = None, info_hash = hashA\<rparr> None =
           Inr ((example_detail hashA 7)\<lparr>bd_minedBy := None\<rparr>)"
    by (simp add: example_defs run_defs)
  have c6: "fst (block example_env ?nd6 hashA example_state) = Done ((example_detail hashA 7)\<lparr>bd_minedBy := None\<rparr>)"
    using collaborator_errors_abort [where hash = hashA and st = example_state and err = refused
        and nd = ?nd6 and e = example_env and blk = "example_block hashA"
        and info = "\<lparr>info_height = 2106398, info_confirmations = 7, info_chainWork = ''0100'',
              info_nextHash = None, info_hash = hashA\<rparr>"
        and ?tx0.0 = "\<lparr>tx_hash = ''coinbase of '' @ hashA, tx_input0_script = ''..Mined by AntPool..''\<rparr>"
        and txs = "[]" and r = "(example_detail hashA 7)\<lparr>bd_minedBy := None\<rparr>"] m t
    by (simp add: example_node_def example_known_def example_height_def example_block_def)
  from c1 c2 c3 c4 c5 c6 show ?thesis by blast
qed

text \<open>
  The claim C9 as stated fails for \<^verbatim>\<open>getDetailedTransaction\<close> in the block lookup:
  the transaction service refuses the call, and the request ends with the block, not
  with the error.
\<close>

theorem swallowed_transaction_error_counterexample:
  "getDetailedTransaction ((example_node 2106404 [])\<lparr>getDetailedTransaction := (\<lambda>t. Inl refused)\<rparr>)
     (Some (''coinbase of '' @ hashA)) = Inl refused \<and>
   fst (block example_env ((example_node 2106404 [])\<lparr>getDetailedTransaction := (\<lambda>t. Inl refused)\<rparr>)
          hashA example_state) \<noteq> HandleErrors (Some refused) \<and>
   fst (block example_env ((example_node 2106404 [])\<lparr>getDetailedTransaction := (\<lambda>t. Inl refused)\<rparr>)
          hashA example_state) = Done ((example_detail hashA 7)\<lparr>bd_minedBy := None\<rparr>)"
  by (simp add: block_def example_defs run_defs)

subsection \<open>The listing\<close>

lemma list_moreTs_is_lte:
  assumes "list e nd req st = (Done data, st')" "list_prepare e req = Inr v"
    "pg_more (lst_pagination data)"
  shows "pg_moreTs (lst_pagination data) = Some (lv_lte v)"
  using list_done [OF assms(1)] assms(2,3) by auto

lemma list_blocks_descending:
  assumes "list e nd req st = (Done data, st')"
  shows "sorted (map (\<lambda>b. - bs_height b) (lst_blocks data))"
  using list_done [OF assms] by (auto simp: sort_blocks_def)

lemma list_blocks_strictly_descending:
  assumes "list e nd req st = (Done data, st')" "distinct (map bs_height (lst_blocks data))"
  shows "sorted_wrt (\<lambda>a b. bs_height a > bs_height b) (lst_blocks data)"
proof -
  have s: "sorted (map (\<lambda>b. - bs_height b) (lst_blocks data))"
    using assms(1) by (rule list_blocks_descending)
  have "inj_on uminus (set (map bs_height (lst_blocks data)))"
    by (simp add: inj_on_def)
  then have "distinct (map uminus (map bs_height (lst_blocks data)))"
    using assms(2) by (simp only: distinct_map)
  then have "distinct (map (\<lambda>b. - bs_height b) (lst_blocks data))"
    by (simp add: comp_def)
  with s have "sorted_wrt (<) (map (\<lambda>b. - bs_height b) (lst_blocks data))"
    by (simp add: strict_sorted_iff)
  then show ?thesis by (simp add: sorted_wrt_map)
qed

lemma list_done_complete:
  assumes "list e nd req st = (Done data, st')" "list_prepare e req = Inr v"
    "bitcoind_getBlockHashesByTimestamp nd (lv_lte v) (lv_gte v) = Inr hashes"
  shows "length (lst_blocks data) = length (snd (list_retain (lv_limit v) hashes))"
proof -
  obtain blocks where
    m: "mapSeries e nd (lv_lte v) (snd (list_retain (lv_limit v) hashes))
          (called (GetBlockHashesByTimestamp (lv_lte v) (lv_gte v)) st) = (Result blocks, st')"
    and b: "lst_blocks data = sort_blocks blocks"
    using list_done [OF assms(1)] assms(2,3) by auto
  from mapSeries_length [OF m] b show ?thesis by (simp add: sort_blocks_def)
qed

text \<open>
  Claim C3 (the code departs from it). The index returns the hashes of A, B, C and the
  limit is 2: the listing has \<^verbatim>\<open>more = true\<close> and the blocks C, B in descending height.
  The least \<^verbatim>\<open>time\<close> among the summaries returned is 1704110000, that of B, but
  \<^verbatim>\<open>moreTs\<close> is 1704153600, the upper bound \<^verbatim>\<open>lte\<close> of the request: \<^verbatim>\<open>finish\<close>
  lowers only the parameter of \<^verbatim>\<open>_getBlockSummary\<close>, never the variable of
  \<^verbatim>\<open>list\<close> (lemma \<open>list_moreTs_is_lte\<close> has this for every listing). The
  order is strict whenever the heights differ (\<open>list_blocks_strictly_descending\<close>).
\<close>

theorem list_moreTs_example:
  "fst (list example_env (example_node 2106404 [hashA, hashB, hashC])
          \<lparr>blockDate = Some ''2024-01-01'', startTimestamp = None, limit = Some ''2''\<rparr>
          example_state) =
     Done \<lparr>lst_blocks = [example_summary hashC, example_summary hashB], lst_length = 2,
           lst_pagination =
             \<lparr>pg_next = Some ''2024-01-02'', pg_prev = ''2023-12-31'',
              pg_currentTs = Some 1704153599, pg_current = ''2024-01-01'', pg_isToday = False,
              pg_more = True, pg_moreTs = Some (Some 1704153600)\<rparr>\<rparr> \<and>
   min_time [example_summary hashC, example_summary hashB] = 1704110000"
proof -
  let ?nd = "example_node 2106404 [hashA, hashB, hashC]"
  let ?st1 = "called (GetBlockHashesByTimestamp (Some 1704153600) (Some 1704067200)) example_state"
  have prep: "list_prepare example_env
                \<lparr>blockDate = Some ''2024-01-01'', startTimestamp = None, limit = Some ''2''\<rparr> =
              Inr \<lparr>lv_dateStr = ''2024-01-01'', lv_isToday = False, lv_gte = Some 1704067200,
                   lv_lte = Some 1704153600, lv_prev = ''2023-12-31'',
                   lv_next = Some ''2024-01-02'', lv_limit = Some 2\<rparr>"
    using example_prepare [of "Some ''2''"]
    by (simp add: example_env_def digit_char_def dec_value_def)
  have retain: "list_retain (Some 2) [hashA, hashB, hashC] = (True, [hashC, hashB])"
    by (simp add: list_retain_def slice0_def)
  have series: "fst (mapSeries example_env ?nd (Some 1704153600) [hashC, hashB] ?st1) =
                  Result [example_summary hashC, example_summary hashB]"
    by (simp add: getBlockSummary_def example_defs run_defs)
  have "fst (list example_env ?nd
          \<lparr>blockDate = Some ''2024-01-01'', startTimestamp = None, limit = Some ''2''\<rparr>
          example_state) =
     Done \<lparr>lst_blocks = sort_blocks [example_summary hashC, example_summary hashB],
           lst_length = length (sort_blocks [example_summary hashC, example_summary hashB]),
           lst_pagination =
             \<lparr>pg_next = Some ''2024-01-02'', pg_prev = ''2023-12-31'',
              pg_currentTs = Some 1704153599, pg_current = ''2024-01-01'', pg_isToday = False,
              pg_more = True, pg_moreTs = Some (Some 1704153600)\<rparr>\<rparr>"
    using series
    by (cases "mapSeries example_env ?nd (Some 1704153600) [hashC, hashB] ?st1")
       (simp add: list_def prep retain example_node_def Let_def)
  moreover have "sort_blocks [example_summary hashC, example_summary hashB] =
                   [example_summary hashC, example_summary hashB]"
    by (simp add: sort_blocks_def example_summary_def example_height_def hashA_def hashB_def hashC_def)
  moreover have "min_time [example_summary hashC, example_summary hashB] = 1704110000"
    by (simp add: min_time_def example_summary_def example_time_def hashA_def hashB_def hashC_def)
  ultimately show ?thesis by simp
qed

lemma junk_matches: "datePattern_test ''2024-01-01junk''"
  by (simp add: datePattern_here_def digit_char_def)

text \<open>
  Claim C8 (the code departs from it). The date string \<^verbatim>\<open>2024-01-01junk\<close> is not
  well-formed as yyyy-mm-dd, yet the pattern of \<^verbatim>\<open>list\<close>, which has no anchors, finds
  a date in it: whatever the runtime, the node and the state, the request passes the
  check and calls \<^verbatim>\<open>getBlockHashesByTimestamp\<close>; with the example runtime, for which
  the string is no date, the listing answers with bounds that are not numbers. The
  string \<^verbatim>\<open>2024/01/01\<close> of the claim is refused, with no call to the node.
\<close>

theorem list_accepts_embedded_date:
  "\<not> well_formed_date ''2024-01-01junk'' \<and>
   (\<exists>v cs. list_prepare e \<lparr>blockDate = Some ''2024-01-01junk'', startTimestamp = s, limit = l\<rparr> = Inr v \<and>
      calls (snd (list e nd \<lparr>blockDate = Some ''2024-01-01junk'', startTimestamp = s, limit = l\<rparr> st)) =
        calls st @ GetBlockHashesByTimestamp (lv_lte v) (lv_gte v) # cs) \<and>
   fst (list example_env (example_node 2106404 [])
          \<lparr>blockDate = Some ''2024-01-01junk'', startTimestamp = None, limit = None\<rparr>
          example_state) =
     Done \<lparr>lst_blocks = [], lst_length = 0,
           lst_pagination =
             \<lparr>pg_next = None, pg_prev = ''NaN-NaN-NaN'', pg_currentTs = None,
              pg_current = ''2024-01-01junk'', pg_isToday = False, pg_more = False,
              pg_moreTs = None\<rparr>\<rparr> \<and>
   list e nd \<lparr>blockDate = Some ''2024/01/01'', startTimestamp = s, limit = l\<rparr> st =
     (HandleErrors (Some (Err None ''Please use yyyy-mm-dd format'')), st)"
proof -
  let ?req = "\<lparr>blockDate = Some ''2024-01-01junk'', startTimestamp = s, limit = l\<rparr>"
  have a: "\<not> well_formed_date ''2024-01-01junk''"
    by (simp add: well_formed_date_def)
  obtain v where v: "list_prepare e ?req = Inr v"
    using list_prepare_accepts [of ?req "''2024-01-01junk''" e] junk_matches by auto
  obtain cs where "calls (snd (list e nd ?req st)) =
        calls st @ GetBlockHashesByTimestamp (lv_lte v) (lv_gte v) # cs"
    using list_calls_node [OF v] by blast
  with v have b: "\<exists>v cs. list_prepare e ?req = Inr v \<and>
      calls (snd (list e nd ?req st)) = calls st @ GetBlockHashesByTimestamp (lv_lte v) (lv_gte v) # cs"
    by blast
  have c: "fst (list example_env (example_node 2106404 [])
          \<lparr>blockDate = Some ''2024-01-01junk'', startTimestamp = None, limit = None\<rparr>
          example_state) =
     Done \<lparr>lst_blocks = [], lst_length = 0,
           lst_pagination =
             \<lparr>pg_next = None, pg_prev = ''NaN-NaN-NaN'', pg_currentTs = None,
              pg_current = ''2024-01-01junk'', pg_isToday = False, pg_more = False,
              pg_moreTs = None\<rparr>\<rparr>"
    by (simp add: list_defs example_defs digit_char_def nat_toString.simps digit_of_def
        char_of_def bit_Suc_0_iff Let_def)
  have "\<not> datePattern_test ''2024/01/01''"
    by (simp add: datePattern_here_def digit_char_def)
  then have d: "list e nd \<lparr>blockDate = Some ''2024/01/01'', startTimestamp = s, limit = l\<rparr> st =
     (HandleErrors (Some (Err None ''Please use yyyy-mm-dd format'')), st)"
    by (intro list_format_error [of _ "''2024/01/01''"]) simp_all
  from a b c d show ?thesis by blast
qed

end
